theory Spec2Isabelle
  imports Main "HOL-Library.AList"
begin

section \<open>JavaScript objects used as maps\<close>

text \<open>
  The repository keys the relationships of a shared Person or Institution by the id of
  the owning DigitalEntity or PhysicalEntity: \<^verbatim>\<open>roles: { [id: string]: string[] }\<close> and
  so on. Such an object is modelled as an association list of its own properties in
  insertion order. A property can be present with the value \<^verbatim>\<open>undefined\<close>
  (\<^verbatim>\<open>obj.roles[entityId] = relatedRole\<close> with an undefined \<^verbatim>\<open>relatedRole\<close>), so
  the values are options and \<open>None\<close> is \<^verbatim>\<open>undefined\<close>.
\<close>

type_synonym objid = string

type_synonym 'v jsobj = "(string \<times> 'v option) list"

definition keys :: "'v jsobj \<Rightarrow> string list" where
  \<comment> \<open>\<^verbatim>\<open>Object.keys(o)\<close>\<close>
  "keys obj = map fst obj"

definition getprop :: "'v jsobj \<Rightarrow> string \<Rightarrow> 'v option" where
  \<comment> \<open>\<^verbatim>\<open>o[k]\<close>: undefined for a missing key and for a key that holds undefined\<close>
  "getprop obj k = (case map_of obj k of None \<Rightarrow> None | Some v \<Rightarrow> v)"

definition assign :: "'v jsobj \<Rightarrow> string \<Rightarrow> 'v option \<Rightarrow> 'v jsobj" where
  \<comment> \<open>\<^verbatim>\<open>o[k] = v\<close>\<close>
  "assign obj k v = AList.update k v obj"

definition delete_prop :: "'v jsobj \<Rightarrow> string \<Rightarrow> 'v jsobj" where
  \<comment> \<open>\<^verbatim>\<open>delete o[k]\<close>\<close>
  "delete_prop obj k = AList.delete k obj"

definition truthy_id :: "objid option \<Rightarrow> bool" where
  \<comment> \<open>truthiness of an \<^verbatim>\<open>_id\<close> or of an optional string argument: undefined and the
      empty string are falsy\<close>
  "truthy_id i = (case i of None \<Rightarrow> False | Some s \<Rightarrow> s \<noteq> [])"

section \<open>Persons, institutions and the entities that embed them\<close>

text \<open>
  The interfaces \<^verbatim>\<open>IPerson\<close>, \<^verbatim>\<open>IInstitution\<close>, \<^verbatim>\<open>IDigitalEntity\<close> and
  \<^verbatim>\<open>IPhysicalEntity\<close> are imported by the resolving strategies from
  \<^verbatim>\<open>common/interfaces\<close>; the fields below are the ones the strategies read and write.
  The strategies receive what the database holds, which need not have the shape the
  interfaces declare: \<^verbatim>\<open>saveMetaDataEntity\<close> stores the institutions of an entity as
  bare references, and a person has no addresses. So one record type stands for the
  objects of type \<^verbatim>\<open>IPerson | IInstitution\<close>, and each per-context map is an option:
  \<open>None\<close> is a property that is missing (or null), and reading an entry of it throws a
  TypeError. Addresses and contacts are left abstract (\<open>'a\<close>, \<open>'c\<close>), and so are the
  institution records listed under \<^verbatim>\<open>institutions[id]\<close> of a person (\<open>'i\<close>).

  The type guards \<^verbatim>\<open>isPerson\<close> and \<^verbatim>\<open>isInstitution\<close> come from
  \<^verbatim>\<open>common/interfaces\<close> as well; they are parameters, applied to the object in the
  state in which the code tests it.
\<close>

datatype thrown = Thrown_TypeError

record document =
  oid :: "objid option"

record ('a, 'c, 'i) metadoc = document +
  roles :: "string list jsobj option"
  institutions :: "'i list jsobj option"
  contact_references :: "'c jsobj option"
  addresses :: "'a jsobj option"
  notes' :: "string jsobj option"

record ('a, 'c, 'i) metaentity = document +
  persons :: "('a, 'c, 'i) metadoc list option"
  institutions_of :: "('a, 'c, 'i) metadoc list option"

subsection \<open>removeUnrelatedEntities\<close>

text \<open>
  The roles are collapsed first, whatever the object is; then the branch of the first
  guard that holds runs, and an object that passes neither guard is returned with its
  other maps as they were. A map that is read and is missing makes the function throw.
\<close>

definition removeUnrelatedEntities ::
  "(('a, 'c, 'i) metadoc \<Rightarrow> bool) \<Rightarrow> (('a, 'c, 'i) metadoc \<Rightarrow> bool) \<Rightarrow>
   ('a, 'c, 'i) metadoc \<Rightarrow> objid \<Rightarrow> thrown + ('a, 'c, 'i) metadoc" where
  "removeUnrelatedEntities isPerson isInstitution obj entityId =
     (case roles obj of
        None \<Rightarrow> Inl Thrown_TypeError
      | Some rs \<Rightarrow>
          (let relatedRole = getprop rs entityId;
               obj = obj\<lparr>roles := Some (assign [] entityId relatedRole)\<rparr>
           in if isPerson obj then
                (case institutions obj of
                   None \<Rightarrow> Inl Thrown_TypeError
                 | Some insts \<Rightarrow>
                     (let relatedInst = getprop insts entityId;
                          obj = obj\<lparr>institutions := Some (assign [] entityId relatedInst)\<rparr>
                      in case contact_references obj of
                           None \<Rightarrow> Inl Thrown_TypeError
                         | Some contacts \<Rightarrow>
                             (let relatedContact = getprop contacts entityId
                              in Inr (obj\<lparr>contact_references :=
                                            Some (assign [] entityId relatedContact)\<rparr>))))
              else if isInstitution obj then
                (case addresses obj of
                   None \<Rightarrow> Inl Thrown_TypeError
                 | Some addrs \<Rightarrow>
                     (let relatedAddress = getprop addrs entityId;
                          obj = obj\<lparr>addresses := Some (assign [] entityId relatedAddress)\<rparr>
                      in case notes' obj of
                           None \<Rightarrow> Inl Thrown_TypeError
                         | Some ns \<Rightarrow>
                             (let relatedNote = getprop ns entityId
                              in Inr (obj\<lparr>notes' := Some (assign [] entityId relatedNote)\<rparr>))))
              else Inr obj))"

subsection \<open>resolveInstitution\<close>

text \<open>
  \<^verbatim>\<open>isUnresolved\<close> (from \<^verbatim>\<open>common/interfaces\<close>) and \<^verbatim>\<open>Mongo.resolve<IAddress>\<close>
  are parameters: the first is applied to the value of each entry, which is undefined
  for a context the institution has no address in, the second answers with the resolved
  address or with nothing. The loop runs over the entries \<^verbatim>\<open>Object.entries\<close> listed
  before the first iteration; \<^verbatim>\<open>Object.entries\<close> of a missing addresses map throws.
\<close>

definition resolveInstitution_step ::
  "('a option \<Rightarrow> bool) \<Rightarrow> ('a option \<Rightarrow> 'a option) \<Rightarrow>
   string \<times> 'a option \<Rightarrow> ('a, 'c, 'i) metadoc \<Rightarrow> ('a, 'c, 'i) metadoc" where
  "resolveInstitution_step isUnresolved resolveAddress entry institution =
     (let id = fst entry; address = snd entry in
      if \<not> isUnresolved address then institution
      else (case resolveAddress address of
              Some resolved \<Rightarrow>
                institution\<lparr>addresses :=
                  map_option (\<lambda>m. assign m id (Some resolved)) (addresses institution)\<rparr>
            | None \<Rightarrow>
                institution\<lparr>addresses :=
                  map_option (\<lambda>m. delete_prop m id) (addresses institution)\<rparr>))"

definition resolveInstitution ::
  "(('a, 'c, 'i) metadoc \<Rightarrow> bool) \<Rightarrow> (('a, 'c, 'i) metadoc \<Rightarrow> bool) \<Rightarrow>
   ('a option \<Rightarrow> bool) \<Rightarrow> ('a option \<Rightarrow> 'a option) \<Rightarrow>
   ('a, 'c, 'i) metadoc \<Rightarrow> objid option \<Rightarrow> thrown + ('a, 'c, 'i) metadoc" where
  "resolveInstitution isPerson isInstitution isUnresolved resolveAddress institution entityId =
     (case (if truthy_id entityId
            then removeUnrelatedEntities isPerson isInstitution institution (the entityId)
            else Inr institution) of
        Inl err \<Rightarrow> Inl err
      | Inr institution \<Rightarrow>
          (case addresses institution of
             None \<Rightarrow> Inl Thrown_TypeError
           | Some entries \<Rightarrow>
               Inr (fold (resolveInstitution_step isUnresolved resolveAddress)
                      entries institution)))"

subsection \<open>resolveMetaDataEntity\<close>

text \<open>
  \<^verbatim>\<open>Mongo.resolve<IPerson>(entity.persons[i], 'person')\<close> is the parameter
  \<open>resolvePerson\<close>. A person that does not resolve stays in the list as it was stored
  (\<^verbatim>\<open>continue\<close>). The test \<^verbatim>\<open>!entity.persons[i].roles\<close> that follows
  \<^verbatim>\<open>removeUnrelatedEntities\<close> holds for a missing roles map only; the test on
  \<^verbatim>\<open>roles[_id]\<close> holds exactly for undefined, an array being truthy even when
  empty. The institutions of the entity are passed to \<^verbatim>\<open>resolveInstitution\<close> as
  they are stored, without \<^verbatim>\<open>Mongo.resolve\<close>. An exception in either loop ends the
  function: the promise it returns is rejected. \<open>for_each\<close> is such a loop: it stops
  at the first element whose step throws.
\<close>

fun for_each :: "('x \<Rightarrow> thrown + 'y) \<Rightarrow> 'x list \<Rightarrow> thrown + 'y list" where
  "for_each f [] = Inr []"
| "for_each f (x # xs) =
     (case f x of
        Inl err \<Rightarrow> Inl err
      | Inr y \<Rightarrow> (case for_each f xs of Inl err \<Rightarrow> Inl err | Inr ys \<Rightarrow> Inr (y # ys)))"

definition default_roles :: "('a, 'c, 'i) metadoc \<Rightarrow> objid \<Rightarrow> ('a, 'c, 'i) metadoc" where
  "default_roles p i =
     (let p = (if roles p = None then p\<lparr>roles := Some []\<rparr> else p)
      in if getprop (the (roles p)) i = None
         then p\<lparr>roles := Some (assign (the (roles p)) i (Some []))\<rparr>
         else p)"

definition resolveMetaDataEntity_person ::
  "(('a, 'c, 'i) metadoc \<Rightarrow> bool) \<Rightarrow> (('a, 'c, 'i) metadoc \<Rightarrow> bool) \<Rightarrow>
   (('a, 'c, 'i) metadoc \<Rightarrow> ('a, 'c, 'i) metadoc option) \<Rightarrow> objid \<Rightarrow>
   ('a, 'c, 'i) metadoc \<Rightarrow> thrown + ('a, 'c, 'i) metadoc" where
  "resolveMetaDataEntity_person isPerson isInstitution resolvePerson i p =
     (case resolvePerson p of
        None \<Rightarrow> Inr p
      | Some resolved \<Rightarrow>
          (case removeUnrelatedEntities isPerson isInstitution resolved i of
             Inl err \<Rightarrow> Inl err
           | Inr filtered \<Rightarrow> Inr (default_roles filtered i)))"

definition resolveMetaDataEntity_institution ::
  "(('a, 'c, 'i) metadoc \<Rightarrow> bool) \<Rightarrow> (('a, 'c, 'i) metadoc \<Rightarrow> bool) \<Rightarrow>
   ('a option \<Rightarrow> bool) \<Rightarrow> ('a option \<Rightarrow> 'a option) \<Rightarrow> objid \<Rightarrow>
   ('a, 'c, 'i) metadoc \<Rightarrow> thrown + ('a, 'c, 'i) metadoc" where
  "resolveMetaDataEntity_institution isPerson isInstitution isUnresolved resolveAddress i inst =
     (case resolveInstitution isPerson isInstitution isUnresolved resolveAddress inst (Some i) of
        Inl err \<Rightarrow> Inl err
      | Inr resolved \<Rightarrow> removeUnrelatedEntities isPerson isInstitution resolved i)"

definition resolveMetaDataEntity ::
  "(('a, 'c, 'i) metadoc \<Rightarrow> bool) \<Rightarrow> (('a, 'c, 'i) metadoc \<Rightarrow> bool) \<Rightarrow>
   (('a, 'c, 'i) metadoc \<Rightarrow> ('a, 'c, 'i) metadoc option) \<Rightarrow>
   ('a option \<Rightarrow> bool) \<Rightarrow> ('a option \<Rightarrow> 'a option) \<Rightarrow>
   ('a, 'c, 'i) metaentity option \<Rightarrow> thrown + ('a, 'c, 'i) metaentity option" where
  "resolveMetaDataEntity isPerson isInstitution resolvePerson isUnresolved resolveAddress entity =
     (case entity of
        None \<Rightarrow> Inr None
      | Some e \<Rightarrow>
          if \<not> truthy_id (oid e) then Inr (Some e)
          else
            (let i = the (oid e) in
             case (case persons e of
                     None \<Rightarrow> Inr e
                   | Some ps \<Rightarrow>
                       (case for_each (resolveMetaDataEntity_person isPerson isInstitution
                                         resolvePerson i) ps of
                          Inl err \<Rightarrow> Inl err
                        | Inr ps' \<Rightarrow> Inr (e\<lparr>persons := Some ps'\<rparr>))) of
               Inl err \<Rightarrow> Inl err
             | Inr e \<Rightarrow>
                 (case institutions_of e of
                    None \<Rightarrow> Inr (Some e)
                  | Some xs \<Rightarrow>
                      (case for_each (resolveMetaDataEntity_institution isPerson isInstitution
                                        isUnresolved resolveAddress i) xs of
                         Inl err \<Rightarrow> Inl err
                       | Inr xs' \<Rightarrow> Inr (Some (e\<lparr>institutions_of := Some xs'\<rparr>))))))"

subsection \<open>What the filter leaves in a record\<close>

text \<open>
  \<open>owner_entry stored i returned\<close>: the returned map holds exactly one entry, keyed by
  the owner \<open>i\<close>, and its value is the value the stored map had under \<open>i\<close> (undefined
  when it had none).
\<close>

definition owner_entry :: "'v jsobj option \<Rightarrow> objid \<Rightarrow> 'v jsobj option \<Rightarrow> bool" where
  "owner_entry stored i returned =
     (case stored of
        None \<Rightarrow> False
      | Some m \<Rightarrow> returned = Some [(i, getprop m i)])"

text \<open>
  \<open>tested obj i\<close> is the object in the state in which the guards see it: the roles are
  collapsed already.
\<close>

definition tested :: "('a, 'c, 'i) metadoc \<Rightarrow> objid \<Rightarrow> ('a, 'c, 'i) metadoc" where
  "tested obj i = obj\<lparr>roles := Some [(i, getprop (the (roles obj)) i)]\<rparr>"

text \<open>
  \<open>filtered_for isPerson isInstitution i obj obj'\<close>: \<open>obj'\<close> is \<open>obj\<close> with the roles, and
  for a Person the institutions and the contact references, for an Institution the
  addresses and the notes, reduced to the entry of the owner \<open>i\<close>, and with everything else
  as it was.
\<close>

definition filtered_for ::
  "(('a, 'c, 'i) metadoc \<Rightarrow> bool) \<Rightarrow> (('a, 'c, 'i) metadoc \<Rightarrow> bool) \<Rightarrow> objid \<Rightarrow>
   ('a, 'c, 'i) metadoc \<Rightarrow> ('a, 'c, 'i) metadoc \<Rightarrow> bool" where
  "filtered_for isPerson isInstitution i obj obj' =
     (oid obj' = oid obj \<and>
      owner_entry (roles obj) i (roles obj') \<and>
      (if isPerson (tested obj i) then
         owner_entry (institutions obj) i (institutions obj') \<and>
         owner_entry (contact_references obj) i (contact_references obj') \<and>
         addresses obj' = addresses obj \<and> notes' obj' = notes' obj
       else if isInstitution (tested obj i) then
         owner_entry (addresses obj) i (addresses obj') \<and>
         owner_entry (notes' obj) i (notes' obj') \<and>
         institutions obj' = institutions obj \<and>
         contact_references obj' = contact_references obj
       else
         institutions obj' = institutions obj \<and>
         contact_references obj' = contact_references obj \<and>
         addresses obj' = addresses obj \<and> notes' obj' = notes' obj))"


subsection \<open>A shared person and institution, for the examples\<close>

text \<open>
  Person P is AUTHOR in the context of entity A and EDITOR in the context of entity B, and
  has no role in the context of entity C. Under A the person belongs to the institution
  N, which has roles, addresses and a note under A and under B. The institution I has a
  role under B only. The guards of the examples tell a person by its institutions and an
  institution by its addresses.
\<close>

type_synonym ex_nested = "(unit, unit, unit) metadoc"

type_synonym ex_doc_meta = "(unit, unit, ex_nested) metadoc"

definition ex_isPerson :: "ex_doc_meta \<Rightarrow> bool" where
  "ex_isPerson obj = (institutions obj \<noteq> None)"

definition ex_isInstitution :: "ex_doc_meta \<Rightarrow> bool" where
  "ex_isInstitution obj = (addresses obj \<noteq> None)"

definition ex_nested_institution :: ex_nested where
  "ex_nested_institution =
     \<lparr>oid = Some ''N'',
      roles = Some [(''A'', Some [''RIGHTS_OWNER'']), (''B'', Some [''CREATOR''])],
      institutions = None, contact_references = None,
      addresses = Some [(''A'', Some ()), (''B'', Some ())],
      notes' = Some [(''A'', Some ''note for A''), (''B'', Some ''note for B'')]\<rparr>"

definition ex_person :: ex_doc_meta where
  "ex_person = \<lparr>oid = Some ''P'',
                roles = Some [(''A'', Some [''AUTHOR'']), (''B'', Some [''EDITOR''])],
                institutions = Some [(''A'', Some [ex_nested_institution]), (''B'', Some [])],
                contact_references = Some [(''B'', Some ())],
                addresses = None, notes' = None\<rparr>"

definition ex_institution :: ex_doc_meta where
  "ex_institution = \<lparr>oid = Some ''I'',
                     roles = Some [(''B'', Some [''RIGHTS_OWNER''])],
                     institutions = None, contact_references = None,
                     addresses = Some [(''A'', Some ()), (''B'', Some ())],
                     notes' = Some [(''B'', Some ''note'')]\<rparr>"

text \<open>A bare reference, as \<^verbatim>\<open>saveMetaDataEntity\<close> stores it: the id and nothing else.\<close>

definition ex_reference :: "string \<Rightarrow> ex_doc_meta" where
  "ex_reference i = \<lparr>oid = Some i, roles = None, institutions = None,
                     contact_references = None, addresses = None, notes' = None\<rparr>"

definition ex_entity :: "string \<Rightarrow> (unit, unit, ex_nested) metaentity" where
  "ex_entity i = \<lparr>oid = Some i, persons = Some [ex_reference ''P''],
                  institutions_of = Some [ex_institution]\<rparr>"

definition ex_entity_as_stored :: "string \<Rightarrow> (unit, unit, ex_nested) metaentity" where
  "ex_entity_as_stored i = \<lparr>oid = Some i, persons = Some [ex_reference ''P''],
                         institutions_of = Some [ex_reference ''I'']\<rparr>"

definition ex_resolvePerson :: "ex_doc_meta \<Rightarrow> ex_doc_meta option" where
  "ex_resolvePerson p = (if oid p = Some ''P'' then Some ex_person else None)"

definition ex_resolved ::
  "string \<Rightarrow> thrown + (unit, unit, ex_nested) metaentity option" where
  "ex_resolved i =
     resolveMetaDataEntity ex_isPerson ex_isInstitution ex_resolvePerson
       (\<lambda>a. False) (\<lambda>a. a) (Some (ex_entity i))"
section \<open>Annotations\<close>

text \<open>
  An \<^verbatim>\<open>ObjectId\<close> is modelled by its hexadecimal string, which \<^verbatim>\<open>toString\<close> returns
  and \<^verbatim>\<open>new ObjectId\<close> reads back. The fields of \<^verbatim>\<open>IAnnotation\<close> are the ones
  \<^verbatim>\<open>saveAnnotation\<close> reads and writes; a field that the function tests for presence is
  an option. The body of an annotation is a JavaScript object, and \<^verbatim>\<open>===\<close> on objects
  compares their identity, not their content: \<open>identity\<close> is the address of the object.
\<close>

record perspective =
  preview :: string

record content =
  relatedPerspective :: "perspective option"

record body =
  identity :: nat
  content :: "content option"

record source =
  relatedEntity :: "string option"
  relatedCompilation :: "string option"

record target =
  source :: "source option"

record agent =
  agent_id :: string
  agent_name :: string
  agent_type :: string

record annotation =
  aid :: objid
  target :: "target option"
  body :: "body option"
  generated :: "string option"
  lastModificationDate :: "string option"
  lastModifiedBy :: agent

record userdata =
  user_id :: objid
  username :: string
  fullname :: string

text \<open>
  An entry of an \<^verbatim>\<open>annotationList\<close> is null, an id, or a resolved annotation
  (\<^verbatim>\<open>Array<IAnnotation | ObjectId>\<close>, told apart by \<^verbatim>\<open>isAnnotation\<close>).
\<close>

datatype annref = AnnId objid | AnnObj annotation

record annotated = document +
  annotationList :: "annref option list option"

fun annref_id :: "annref \<Rightarrow> objid" where
  "annref_id (AnnObj a) = aid a"
| "annref_id (AnnId i) = i"

fun as_object_id :: "annref \<Rightarrow> annref" where
  "as_object_id (AnnObj a) = AnnId (aid a)"
| "as_object_id (AnnId i) = AnnId i"

datatype error =
    Invalid_annotation
  | Missing_source
  | Missing_relatedPerspective
  | Related_undefined
  | Invalid_related_entity_id
  | Permission_denied
  | Failed_update
  | TypeError

subsection \<open>updateAnnotationList\<close>

text \<open>
  \<open>resolve0\<close> is \<^verbatim>\<open>Mongo.resolve(entityOrCompId, add_to_coll, 0)\<close>. When it answers
  with nothing, reading \<^verbatim>\<open>obj.annotationList\<close> throws; inside \<^verbatim>\<open>saveAnnotation\<close>
  the exception leaves the promise of the save pending.
\<close>

definition updateAnnotationList ::
  "(objid \<Rightarrow> string \<Rightarrow> 'z annotated_scheme option) \<Rightarrow> objid \<Rightarrow> string \<Rightarrow> objid \<Rightarrow>
   error + 'z annotated_scheme" where
  "updateAnnotationList resolve0 entityOrCompId add_to_coll annotationId =
     (case resolve0 entityOrCompId add_to_coll of
        None \<Rightarrow> Inl TypeError
      | Some obj \<Rightarrow>
          (let annotations = (case annotationList obj of Some l \<Rightarrow> l | None \<Rightarrow> []);
               annotations = List.map_filter (\<lambda>a. a) annotations;
               doesAnnotationExist =
                 find (\<lambda>a. annref_id a = annotationId) annotations;
               annotations =
                 (if doesAnnotationExist = None then annotations @ [AnnId annotationId]
                  else annotations);
               annotations = map as_object_id annotations
           in Inr (obj\<lparr>annotationList := Some (map Some annotations)\<rparr>)))"

text \<open>
  The list that \<^verbatim>\<open>addAnnotationsToAnnotationList\<close> stores after it has copied the valid
  annotations into the compilation under ids of their own:
  \<^verbatim>\<open>Array.from(new Set(list.filter(ann => ann).concat(validAnnotations).map(...)))\<close>,
  where the function under \<^verbatim>\<open>map\<close> makes a new \<^verbatim>\<open>ObjectId\<close> for every entry. A
  \<^verbatim>\<open>Set\<close> compares objects by identity, and the entries are all new objects, so it
  keeps every one of them.
\<close>

definition addAnnotationsToAnnotationList_list ::
  "annref option list option \<Rightarrow> annotation list \<Rightarrow> annref option list" where
  "addAnnotationsToAnnotationList_list stored validAnnotations =
     map (Some \<circ> as_object_id)
       (List.map_filter (\<lambda>a. a) (case stored of Some l \<Rightarrow> l | None \<Rightarrow> [])
        @ map AnnObj validAnnotations)"

text \<open>The annotation ids of a list, null entries left out.\<close>

definition annotation_ids :: "annref option list \<Rightarrow> objid list" where
  "annotation_ids l = map annref_id (List.map_filter (\<lambda>a. a) l)"

subsection \<open>saveAnnotation\<close>

text \<open>
  The collaborators of \<^verbatim>\<open>saveAnnotation\<close> are the fields of \<open>env\<close>:
  \<^verbatim>\<open>ObjectId.isValid\<close>, \<^verbatim>\<open>Mongo.isUserOwnerOfEntity\<close>, \<^verbatim>\<open>Mongo.saveBase64toImage\<close>,
  \<^verbatim>\<open>Mongo.resolve(annotation, 'annotation')\<close>, \<^verbatim>\<open>Mongo.resolve(id, coll, 0)\<close>, the
  acknowledgement of \<^verbatim>\<open>updateOne\<close> (\<^verbatim>\<open>result.ok === 1\<close>) and the clock. What the
  function does to the outside is returned as a list of effects, in order.
\<close>

record 'z env =
  isValid :: "string \<Rightarrow> bool"
  isUserOwnerOfEntity :: "userdata \<Rightarrow> string \<Rightarrow> bool"
  saveBase64toImage :: "string \<Rightarrow> string \<Rightarrow> objid \<Rightarrow> string"
  resolveAnnotation :: "annotation \<Rightarrow> annotation option"
  resolveTarget :: "objid \<Rightarrow> string \<Rightarrow> 'z annotated_scheme option"
  updateOk :: "string \<Rightarrow> objid \<Rightarrow> bool"
  now :: string

datatype effect =
    SaveImage string objid
  | UpdateAnnotationList string objid "annref option list"
  | InsertCurrentUserData objid string

definition strict_eq_body :: "body option \<Rightarrow> body option \<Rightarrow> bool" where
  \<comment> \<open>\<^verbatim>\<open>a === b\<close> on values that are undefined or objects\<close>
  "strict_eq_body a b =
     (case (a, b) of
        (None, None) \<Rightarrow> True
      | (Some x, Some y) \<Rightarrow> identity x = identity y
      | _ \<Rightarrow> False)"

definition truthy_string :: "string option \<Rightarrow> bool" where
  "truthy_string s = (case s of None \<Rightarrow> False | Some t \<Rightarrow> t \<noteq> [])"

text \<open>The permission checks, lines \<^verbatim>\<open>// Case: Trying to change Default Annotations\<close>
  to the end of \<^verbatim>\<open>// Case: Compilation owner trying to re-rank annotations\<close>.\<close>

definition permission_gate ::
  "'z env \<Rightarrow> annotation \<Rightarrow> userdata \<Rightarrow> bool \<Rightarrow> string \<Rightarrow> string \<Rightarrow> bool" where
  "permission_gate E annotation userData isAnnotationOwner relatedEntityId relatedCompId =
     (let validCompilation = isValid E relatedCompId;
          isEntityOwner = isUserOwnerOfEntity E userData relatedEntityId
      in if \<not> validCompilation \<and> \<not> isEntityOwner then False
         else
           (let isCompilationOwner = isUserOwnerOfEntity E userData relatedCompId
            in if \<not> isAnnotationOwner then
                 (if isCompilationOwner then
                    (case resolveAnnotation E annotation of
                       None \<Rightarrow> True
                     | Some oldAnnotation \<Rightarrow>
                         \<not> strict_eq_body (body oldAnnotation) (body annotation))
                  else False)
               else True))"

text \<open>The part of the function after the permission checks.\<close>

definition store_annotation ::
  "'z env \<Rightarrow> annotation \<Rightarrow> userdata \<Rightarrow> bool \<Rightarrow> string \<Rightarrow> string \<Rightarrow>
   (error + annotation) \<times> effect list" where
  "store_annotation E annotation userData isAnnotationOwner relatedEntityId relatedCompId =
     (let validCompilation = isValid E relatedCompId;
          annotation = annotation\<lparr>
            generated := (if truthy_string (generated annotation) then generated annotation
                          else Some (now E)),
            lastModificationDate := Some (now E),
            lastModifiedBy := \<lparr>agent_id = user_id userData, agent_name = fullname userData,
                               agent_type = ''person''\<rparr>\<rparr>;
          entityOrCompId = (if \<not> validCompilation then relatedEntityId else relatedCompId);
          requestedCollection = (if \<not> validCompilation then ''entity'' else ''compilation'')
      in case updateAnnotationList (resolveTarget E) entityOrCompId requestedCollection
                (aid annotation) of
           Inl e \<Rightarrow> (Inl e, [])
         | Inr resultEntityOrComp \<Rightarrow>
             (let write = UpdateAnnotationList requestedCollection entityOrCompId
                            (the (annotationList resultEntityOrComp))
              in if \<not> updateOk E requestedCollection entityOrCompId
                 then (Inl Failed_update, [write])
                 else if isAnnotationOwner
                 then (Inr annotation, [write, InsertCurrentUserData (aid annotation) ''annotation''])
                 else (Inr annotation, [write])))"

definition saveAnnotation ::
  "'z env \<Rightarrow> annotation \<Rightarrow> userdata \<Rightarrow> bool \<Rightarrow> (error + annotation) \<times> effect list" where
  "saveAnnotation E annotation userData doesEntityExist =
     (let isAnnotationOwner =
            (if doesEntityExist then isUserOwnerOfEntity E userData (aid annotation) else True)
      in case target annotation of
           None \<Rightarrow> (Inl Invalid_annotation, [])
         | Some tgt \<Rightarrow>
         (case source tgt of
           None \<Rightarrow> (Inl Invalid_annotation, [])
         | Some src \<Rightarrow>
         (case body annotation of
           None \<Rightarrow> (Inl Missing_relatedPerspective, [])
         | Some b \<Rightarrow>
         (case content b of
           None \<Rightarrow> (Inl Missing_relatedPerspective, [])
         | Some c \<Rightarrow>
         (case relatedPerspective c of
           None \<Rightarrow> (Inl Missing_relatedPerspective, [])
         | Some p \<Rightarrow>
             (let image = SaveImage ''annotation'' (aid annotation);
                  p = p\<lparr>preview :=
                         saveBase64toImage E (preview p) ''annotation'' (aid annotation)\<rparr>;
                  annotation = annotation\<lparr>body :=
                         Some (b\<lparr>content := Some (c\<lparr>relatedPerspective := Some p\<rparr>)\<rparr>)\<rparr>
              in case (relatedEntity src, relatedCompilation src) of
                   (Some relatedEntityId, Some relatedCompId) \<Rightarrow>
                     if \<not> isValid E relatedEntityId
                     then (Inl Invalid_related_entity_id, [image])
                     else if \<not> permission_gate E annotation userData isAnnotationOwner
                                 relatedEntityId relatedCompId
                     then (Inl Permission_denied, [image])
                     else (case store_annotation E annotation userData isAnnotationOwner
                                  relatedEntityId relatedCompId of
                             (r, effects) \<Rightarrow> (r, image # effects))
                 | _ \<Rightarrow> (Inl Related_undefined, [image])))))))"

subsection \<open>A compilation owner who does not own the annotation\<close>

text \<open>
  The user owns the compilation K1 and neither the entity E1 nor the annotation N1. The
  stored annotation N1 and the two submitted ones are three objects: the first submitted
  one repeats the stored body, the second one changes the preview of its perspective.
\<close>

definition ex_user :: userdata where
  "ex_user = \<lparr>user_id = ''U1'', username = ''user'', fullname = ''A User''\<rparr>"

definition ex_annotation :: "nat \<Rightarrow> string \<Rightarrow> annotation" where
  "ex_annotation i p =
     \<lparr>aid = ''N1'',
      target = Some \<lparr>source = Some \<lparr>relatedEntity = Some ''E1'',
                                     relatedCompilation = Some ''K1''\<rparr>\<rparr>,
      body = Some \<lparr>identity = i,
                   content = Some \<lparr>relatedPerspective = Some \<lparr>preview = p\<rparr>\<rparr>\<rparr>,
      generated = Some ''2020-01-01'',
      lastModificationDate = Some ''2020-01-01'',
      lastModifiedBy = \<lparr>agent_id = ''U0'', agent_name = ''Author'', agent_type = ''person''\<rparr>\<rparr>"

definition ex_stored_annotation :: annotation where
  "ex_stored_annotation = ex_annotation 1 ''stored.png''"

definition ex_compilation :: annotated where
  "ex_compilation = \<lparr>oid = Some ''K1'', annotationList = Some [Some (AnnId ''N1'')]\<rparr>"

definition ex_resolve0 :: "objid \<Rightarrow> string \<Rightarrow> annotated option" where
  "ex_resolve0 i coll =
     (if i = ''K1'' \<and> coll = ''compilation'' then Some ex_compilation else None)"

definition ex_env :: "unit env" where
  "ex_env = \<lparr>isValid = (\<lambda>s. s = ''E1'' \<or> s = ''K1'' \<or> s = ''N1''),
             isUserOwnerOfEntity = (\<lambda>u i. i = ''K1''),
             saveBase64toImage = (\<lambda>p coll i. p),
             resolveAnnotation = (\<lambda>a. if aid a = ''N1'' then Some ex_stored_annotation else None),
             resolveTarget = ex_resolve0,
             updateOk = (\<lambda>coll i. True),
             now = ''2020-02-02''\<rparr>"

section \<open>Owners of entities\<close>

text \<open>
  An account of the \<^verbatim>\<open>users\<close> collection (\<^verbatim>\<open>ldap\<close> in the older service) holds the
  ids of the entities it owns in \<^verbatim>\<open>data.entity\<close> (\<^verbatim>\<open>data.model\<close> in the older
  service): the field \<open>owned\<close>, which can be missing and can hold null entries.
  \<^verbatim>\<open>findAllEntityOwners\<close> searches the JSON text of that array for the entity id.
\<close>

record account =
  account_id :: objid
  account_username :: string
  account_fullname :: string
  owned :: "objid option list option"

fun startsWith :: "string \<Rightarrow> string \<Rightarrow> bool" where
  "startsWith s [] = True"
| "startsWith [] (c # cs) = False"
| "startsWith (x # xs) (c # cs) = (x = c \<and> startsWith xs cs)"

fun str_includes :: "string \<Rightarrow> string \<Rightarrow> bool" where
  \<comment> \<open>\<^verbatim>\<open>s.indexOf(t) !== -1\<close>, \<^verbatim>\<open>s.includes(t)\<close>\<close>
  "str_includes [] t = (t = [])"
| "str_includes (x # xs) t = (startsWith (x # xs) t \<or> str_includes xs t)"

fun join_comma :: "string list \<Rightarrow> string" where
  "join_comma [] = []"
| "join_comma [x] = x"
| "join_comma (x # y # ys) = x @ '','' @ join_comma (y # ys)"

definition stringify_ids :: "objid option list option \<Rightarrow> string option" where
  \<comment> \<open>\<^verbatim>\<open>JSON.stringify\<close> of an array of ObjectIds and nulls; undefined for undefined\<close>
  "stringify_ids l =
     (case l of
        None \<Rightarrow> None
      | Some xs \<Rightarrow>
          Some (''['' @ join_comma (map (\<lambda>x. case x of None \<Rightarrow> ''null''
                                              | Some i \<Rightarrow> [CHR 0x22] @ i @ [CHR 0x22]) xs)
                @ '']''))"

definition is_owner_of :: "objid \<Rightarrow> account \<Rightarrow> bool" where
  \<comment> \<open>the filter of \<^verbatim>\<open>findAllEntityOwners\<close>\<close>
  "is_owner_of entityId userData =
     (case stringify_ids (owned userData) of
        None \<Rightarrow> False
      | Some Entities \<Rightarrow> str_includes Entities entityId)"

definition findAllEntityOwners :: "account list \<Rightarrow> objid \<Rightarrow> (string \<times> string \<times> objid) list" where
  "findAllEntityOwners users entityId =
     map (\<lambda>userData. (account_fullname userData, account_username userData, account_id userData))
       (filter (is_owner_of entityId) users)"

record owner_request =
  req_command :: "string option"
  req_ownerUsername :: "string option"
  req_ownerId :: "string option"
  req_entityId :: "string option"

datatype owner_response =
    Ok
  | Invalid_command
  | No_owner_given
  | Incorrect_owner_id
  | Invalid_entity_identifier
  | Incorrect_owner
  | Cannot_remove_last_owner
  | Failed_updating_array
  | Threw

datatype user_query = ById objid | ByUsername string

fun matches :: "user_query \<Rightarrow> account \<Rightarrow> bool" where
  "matches (ById i) a = (account_id a = i)"
| "matches (ByUsername n) a = (account_username a = n)"

fun update_first :: "('a \<Rightarrow> bool) \<Rightarrow> 'a \<Rightarrow> 'a list \<Rightarrow> 'a list" where
  \<comment> \<open>\<^verbatim>\<open>updateOne\<close>: the first document that matches is replaced\<close>
  "update_first P y [] = []"
| "update_first P y (x # xs) = (if P x then y # xs else x # update_first P y xs)"

text \<open>
  \<open>valid\<close> is \<^verbatim>\<open>ObjectId.isValid\<close>, \<open>exists\<close> says whether
  \<^verbatim>\<open>Mongo.resolve(entityId, 'entity')\<close> is defined, \<open>ok\<close> whether the update is
  acknowledged. The function answers with a response and the accounts after it.
  \<^verbatim>\<open>new ObjectId(ownerId)\<close> throws for an id that is not valid, which the checks let
  through when a username is given as well.
\<close>

definition applyActionToEntityOwner ::
  "(string \<Rightarrow> bool) \<Rightarrow> (string \<Rightarrow> bool) \<Rightarrow> bool \<Rightarrow> owner_request \<Rightarrow> account list \<Rightarrow>
   owner_response \<times> account list" where
  "applyActionToEntityOwner valid exists ok request users =
     (if req_command request \<noteq> Some ''add'' \<and> req_command request \<noteq> Some ''remove''
      then (Invalid_command, users)
      else if \<not> truthy_string (req_ownerId request) \<and> \<not> truthy_string (req_ownerUsername request)
      then (No_owner_given, users)
      else if truthy_string (req_ownerId request) \<and> \<not> truthy_string (req_ownerUsername request)
              \<and> \<not> valid (the (req_ownerId request))
      then (Incorrect_owner_id, users)
      else if \<not> truthy_string (req_entityId request) \<or> \<not> valid (the (req_entityId request))
              \<or> \<not> exists (the (req_entityId request))
      then (Invalid_entity_identifier, users)
      else if truthy_string (req_ownerId request) \<and> \<not> valid (the (req_ownerId request))
      then (Threw, users)
      else
        (let entityId = the (req_entityId request);
             findUserQuery = (if truthy_string (req_ownerId request)
                              then ById (the (req_ownerId request))
                              else ByUsername (the (req_ownerUsername request)))
         in case find (matches findUserQuery) users of
              None \<Rightarrow> (Incorrect_owner, users)
            | Some account \<Rightarrow>
                (let entity = (case owned account of Some l \<Rightarrow> l | None \<Rightarrow> []);
                     entity = filter (\<lambda>e. e \<noteq> None) entity;
                     written = (\<lambda>entity.
                       if \<not> ok then (Failed_updating_array, users)
                       else (Ok, update_first (matches findUserQuery)
                                   (account\<lparr>owned := Some entity\<rparr>) users))
                 in if req_command request = Some ''add''
                    then written (if find (\<lambda>obj. obj = Some entityId) entity = None
                                  then entity @ [Some entityId] else entity)
                    else
                      (let entityUses = length (findAllEntityOwners users entityId)
                       in if entityUses = 1 then (Cannot_remove_last_owner, users)
                          else written (filter (\<lambda>e. e \<noteq> Some entityId) entity)))))"

text \<open>
  The older \<^verbatim>\<open>applyActionToModelOwner\<close>. It does not filter null entries, so
  \<^verbatim>\<open>toString\<close> on a null entry throws where \<^verbatim>\<open>find\<close> or \<^verbatim>\<open>filter\<close> reaches it.
\<close>

definition applyActionToModelOwner ::
  "(string \<Rightarrow> bool) \<Rightarrow> (string \<Rightarrow> bool) \<Rightarrow> bool \<Rightarrow> owner_request \<Rightarrow> account list \<Rightarrow>
   owner_response \<times> account list" where
  "applyActionToModelOwner valid exists ok request users =
     (if req_command request \<noteq> Some ''add'' \<and> req_command request \<noteq> Some ''remove''
      then (Invalid_command, users)
      else if \<not> truthy_string (req_ownerId request) \<or> \<not> valid (the (req_ownerId request))
      then (Incorrect_owner_id, users)
      else if \<not> truthy_string (req_entityId request) \<or> \<not> valid (the (req_entityId request))
              \<or> \<not> exists (the (req_entityId request))
      then (Invalid_entity_identifier, users)
      else
        (let modelId = the (req_entityId request);
             query = ById (the (req_ownerId request))
         in case find (matches query) users of
              None \<Rightarrow> (Incorrect_owner_id, users)
            | Some account \<Rightarrow>
                (let model = (case owned account of Some l \<Rightarrow> l | None \<Rightarrow> []);
                     written = (\<lambda>model.
                       if \<not> ok then (Failed_updating_array, users)
                       else (Ok, update_first (matches query)
                                   (account\<lparr>owned := Some model\<rparr>) users))
                 in if req_command request = Some ''add''
                    then (if None \<in> set (takeWhile (\<lambda>obj. obj \<noteq> Some modelId) model)
                          then (Threw, users)
                          else written (if find (\<lambda>obj. obj = Some modelId) model = None
                                        then model @ [Some modelId] else model))
                    else (if None \<in> set model then (Threw, users)
                          else written (filter (\<lambda>m. m \<noteq> Some modelId) model)))))"

subsection \<open>An entity with one owner\<close>

definition ex_account :: account where
  "ex_account = \<lparr>account_id = ''U1'', account_username = ''user'',
                 account_fullname = ''A User'', owned = Some [Some ''M1'']\<rparr>"

definition ex_remove :: owner_request where
  "ex_remove = \<lparr>req_command = Some ''remove'', req_ownerUsername = None, req_ownerId = Some ''U1'',
                req_entityId = Some ''M1''\<rparr>"

section \<open>resolve\<close>

text \<open>
  \<^verbatim>\<open>resolve(obj, coll, depth)\<close> of the entities service. Documents are of any type
  \<open>'d\<close>. The argument is an id or a document that carries one. The record \<open>resolver\<close>
  holds what the function calls: the \<^verbatim>\<open>_id\<close> of a document, \<^verbatim>\<open>ObjectId.isValid\<close>,
  \<^verbatim>\<open>Repo.get(coll).findOne(query(_id))\<close>, the type guards in the order of the dispatch and
  the resolving strategies. A strategy resolves the references of the document through
  \<^verbatim>\<open>resolve\<close> again, which stores in the cache, so it takes the cache and returns it;
  it answers \<open>None\<close> when it throws, which \<^verbatim>\<open>catch\<close> turns into undefined. The cache
  \<^verbatim>\<open>RepoCache\<close> is a map from keys to documents.
\<close>

datatype 'd resolve_arg = No_arg | Id_arg string | Doc_arg 'd

type_synonym 'd cache = "string \<rightharpoonup> 'd"

record 'd resolver =
  id_of :: "'d \<Rightarrow> objid option"
  objectid_valid :: "string \<Rightarrow> bool"
  findOne :: "string \<Rightarrow> objid \<Rightarrow> 'd option"
  is_DigitalEntity :: "'d \<Rightarrow> bool"
  is_Entity :: "'d \<Rightarrow> bool"
  is_Compilation :: "'d \<Rightarrow> bool"
  is_Person :: "'d \<Rightarrow> bool"
  is_Institution :: "'d \<Rightarrow> bool"
  resolveDigitalEntity_strategy :: "'d \<Rightarrow> 'd cache \<Rightarrow> 'd option \<times> 'd cache"
  resolveEntity_strategy :: "'d \<Rightarrow> 'd cache \<Rightarrow> 'd option \<times> 'd cache"
  resolveCompilation_strategy :: "'d \<Rightarrow> 'd cache \<Rightarrow> 'd option \<times> 'd cache"
  resolvePerson_strategy :: "'d \<Rightarrow> 'd cache \<Rightarrow> 'd option \<times> 'd cache"
  resolveInstitution_strategy :: "'d \<Rightarrow> 'd cache \<Rightarrow> 'd option \<times> 'd cache"

definition truthy_number :: "int option \<Rightarrow> bool" where
  \<comment> \<open>truthiness of an optional number: undefined and 0 are falsy\<close>
  "truthy_number n = (case n of None \<Rightarrow> False | Some k \<Rightarrow> k \<noteq> 0)"

definition parsedId_of :: "'d resolver \<Rightarrow> 'd resolve_arg \<Rightarrow> string option" where
  \<comment> \<open>\<^verbatim>\<open>(obj['_id'] ? obj['_id'] : obj).toString()\<close>, when it can be a valid id\<close>
  "parsedId_of R obj =
     (case obj of
        No_arg \<Rightarrow> None
      | Id_arg s \<Rightarrow> if s = [] then None else Some s
      | Doc_arg d \<Rightarrow> if truthy_id (id_of R d) then id_of R d else None)"

definition resolve ::
  "'d resolver \<Rightarrow> 'd resolve_arg \<Rightarrow> string \<Rightarrow> int option \<Rightarrow> 'd cache \<Rightarrow> 'd option \<times> 'd cache" where
  "resolve R obj coll depth cache =
     (case parsedId_of R obj of
        None \<Rightarrow> (None, cache)
      | Some parsedId \<Rightarrow>
          if \<not> objectid_valid R parsedId then (None, cache)
          else
            (let temp = cache parsedId in
             if temp \<noteq> None \<and> truthy_id (id_of R (the temp)) then (temp, cache)
             else
               (let cache = (if temp \<noteq> None then cache(parsedId := None) else cache) in
                case findOne R coll parsedId of
                  None \<Rightarrow> (None, cache)
                | Some resolve_result \<Rightarrow>
                    (let (result, cache) =
                       (if truthy_number depth \<and> depth = Some 0
                          then (Some resolve_result, cache)
                        else if is_DigitalEntity R resolve_result
                          then resolveDigitalEntity_strategy R resolve_result cache
                        else if is_Entity R resolve_result
                          then resolveEntity_strategy R resolve_result cache
                        else if is_Compilation R resolve_result
                          then resolveCompilation_strategy R resolve_result cache
                        else if is_Person R resolve_result
                          then resolvePerson_strategy R resolve_result cache
                        else if is_Institution R resolve_result
                          then resolveInstitution_strategy R resolve_result cache
                        else (Some resolve_result, cache))
                     in case result of
                          None \<Rightarrow> (None, cache)
                        | Some r \<Rightarrow> (Some r, cache(parsedId \<mapsto> r))))))"

subsection \<open>A stored entity with one annotation\<close>

text \<open>
  A small document type for the examples: an id, the collection the document is of, and
  its annotations, each an id with the annotation text once the annotation is resolved.
  The strategy for entities replaces every annotation of the entity by the stored
  annotation, as \<^verbatim>\<open>resolveEntity\<close> does.
\<close>

record ex_doc = document +
  doc_kind :: string
  doc_annotations :: "(objid \<times> string option) list"

definition ex_stored_entity :: ex_doc where
  "ex_stored_entity =
     \<lparr>oid = Some ''E1'', doc_kind = ''entity'', doc_annotations = [(''N1'', None)]\<rparr>"

definition ex_resolver :: "ex_doc resolver" where
  "ex_resolver =
     \<lparr>id_of = oid,
      objectid_valid = (\<lambda>s. True),
      findOne = (\<lambda>coll i. if coll = ''entity'' \<and> i = ''E1'' then Some ex_stored_entity else None),
      is_DigitalEntity = (\<lambda>d. doc_kind d = ''digitalentity''),
      is_Entity = (\<lambda>d. doc_kind d = ''entity''),
      is_Compilation = (\<lambda>d. doc_kind d = ''compilation''),
      is_Person = (\<lambda>d. doc_kind d = ''person''),
      is_Institution = (\<lambda>d. doc_kind d = ''institution''),
      resolveDigitalEntity_strategy = (\<lambda>d c. (Some d, c)),
      resolveEntity_strategy = (\<lambda>d c.
        (Some (d\<lparr>doc_annotations :=
                   map (\<lambda>(i, a). (i, Some ''annotation text'')) (doc_annotations d)\<rparr>), c)),
      resolveCompilation_strategy = (\<lambda>d c. (Some d, c)),
      resolvePerson_strategy = (\<lambda>d c. (Some d, c)),
      resolveInstitution_strategy = (\<lambda>d c. (Some d, c))\<rparr>"

section \<open>addEntityToCollection\<close>

text \<open>
  The request carries the submitted document and the data the middleware attached to it.
  The record \<open>add_env\<close> holds what the function calls. \<open>strategies\<close> is the
  \<^verbatim>\<open>switch (true)\<close>: the type guards with their saving strategies in the order of the
  cases (\<^verbatim>\<open>isCompilation\<close>, \<^verbatim>\<open>isEntity\<close>, \<^verbatim>\<open>isAnnotation\<close>, \<^verbatim>\<open>isPerson\<close>,
  \<^verbatim>\<open>isInstitution\<close>, \<^verbatim>\<open>isDigitalEntity\<close>), the first guard that holds choosing the
  strategy. A strategy resolves with the document to store, or rejects with an error; it
  works on the submitted object in place, so a rejection comes with the object as the
  strategy left it. \<open>logger_err\<close> is the truthiness of what \<^verbatim>\<open>Logger.err(err)\<close>
  returns, on which the handler \<^verbatim>\<open>Logger.err(err) && res.status(500).send(err)\<close>
  depends. The function answers with its reply and with what it did to the cache, the
  owner records and the collection, in order.
\<close>

record 'd add_request =
  submitted :: 'd
  submitted_id :: objid
  isValidObjectId :: bool
  collectionName :: string
  requester :: userdata

record ('d, 'e) add_env =
  strategies :: "(('d \<Rightarrow> bool) \<times> ('d \<Rightarrow> userdata \<Rightarrow> ('e \<times> 'd) + 'd)) list"
  isDigitalEntity :: "'d \<Rightarrow> bool"
  set_id :: "'d \<Rightarrow> objid \<Rightarrow> 'd"
  get_id :: "'d \<Rightarrow> objid"
  fresh_id :: objid
  logger_err :: "'e \<Rightarrow> bool"
  update_acknowledged :: "string \<Rightarrow> objid \<Rightarrow> 'd \<Rightarrow> bool"
  upsertedId :: "string \<Rightarrow> objid \<Rightarrow> objid option"
  resolve_reply :: "objid \<Rightarrow> string \<Rightarrow> 'd option"

datatype ('d, 'e) reply =
    Status500_error 'e
  | Status500_failed_updating
  | Status200 "'d option"

datatype 'd step =
    Flush
  | MakeOwnerOf objid string
  | UpdateOne string objid 'd
  | Resolve objid string

text \<open>The part of the function from \<^verbatim>\<open>Repo.get(coll).updateOne\<close> on.\<close>

definition update_and_reply ::
  "('d, 'e) add_env \<Rightarrow> string \<Rightarrow> objid \<Rightarrow> 'd \<Rightarrow> ('d, 'e) reply \<times> 'd step list" where
  "update_and_reply E coll i entity =
     (if \<not> update_acknowledged E coll i entity
      then (Status500_failed_updating, [UpdateOne coll i entity])
      else
        (let resultId = (case upsertedId E coll i of Some u \<Rightarrow> u | None \<Rightarrow> i)
         in (Status200 (resolve_reply E resultId coll),
             [UpdateOne coll i entity, Resolve resultId coll])))"

definition addEntityToCollection ::
  "('d, 'e) add_env \<Rightarrow> 'd add_request \<Rightarrow> ('d, 'e) reply \<times> 'd step list" where
  "addEntityToCollection E req =
     (let coll = collectionName req;
          i = (if isValidObjectId req then submitted_id req else fresh_id E);
          entity = set_id E (submitted req) i
      in case find (\<lambda>(guard, save). guard entity) (strategies E) of
           None \<Rightarrow>
             (case update_and_reply E coll i entity of
                (r, steps) \<Rightarrow> (r, Flush # MakeOwnerOf i coll # steps))
         | Some (guard, save) \<Rightarrow>
             (case save entity (requester req) of
                Inr res \<Rightarrow>
                  (case update_and_reply E coll i res of
                     (r, steps) \<Rightarrow>
                       (r, Flush #
                           (if isDigitalEntity E res
                            then [MakeOwnerOf (get_id E res) ''digitalentity''] else [])
                           @ steps))
              | Inl (err, entity) \<Rightarrow>
                  if logger_err E err then (Status500_error err, [Flush])
                  else
                    (case update_and_reply E coll i entity of
                       (r, steps) \<Rightarrow> (r, Flush # steps))))"

subsection \<open>A save that is denied\<close>

text \<open>
  The only strategy is \<^verbatim>\<open>saveAnnotation\<close> for an annotation that exists, in the
  environment of the example above. The requester owns nothing.
\<close>

definition ex_add_env :: "(annotation, error) add_env" where
  "ex_add_env =
     \<lparr>strategies =
        [(\<lambda>a. True,
          \<lambda>a u. case fst (saveAnnotation
                            (ex_env\<lparr>isUserOwnerOfEntity := (\<lambda>u i. False)\<rparr>) a u True) of
                   Inl e \<Rightarrow> Inl (e, a)
                 | Inr a' \<Rightarrow> Inr a')],
      isDigitalEntity = (\<lambda>a. False),
      set_id = (\<lambda>a i. a\<lparr>aid := i\<rparr>),
      get_id = aid,
      fresh_id = ''N9'',
      logger_err = (\<lambda>e. True),
      update_acknowledged = (\<lambda>coll i a. True),
      upsertedId = (\<lambda>coll i. None),
      resolve_reply = (\<lambda>i coll. None)\<rparr>"

definition ex_add_request :: "annotation add_request" where
  "ex_add_request =
     \<lparr>submitted = ex_annotation 2 ''changed.png'', submitted_id = ''N1'',
      isValidObjectId = True, collectionName = ''annotation'', requester = ex_user\<rparr>"

text \<open>The same request by the owner of the annotation, with a write that is not acknowledged.\<close>

definition ex_add_env_owner :: "(annotation, error) add_env" where
  "ex_add_env_owner =
     ex_add_env\<lparr>strategies :=
        [(\<lambda>a. True,
          \<lambda>a u. case fst (saveAnnotation
                            (ex_env\<lparr>isUserOwnerOfEntity := (\<lambda>u i. True)\<rparr>) a u True) of
                   Inl e \<Rightarrow> Inl (e, a)
                 | Inr a' \<Rightarrow> Inr a')],
      update_acknowledged := (\<lambda>coll i a. False)\<rparr>"

text \<open>The denied request again, with a \<^verbatim>\<open>Logger.err\<close> that returns a falsy value.\<close>

definition ex_add_env_silent :: "(annotation, error) add_env" where
  "ex_add_env_silent = ex_add_env\<lparr>logger_err := (\<lambda>e. False)\<rparr>"

definition ex_saved_annotation :: annotation where
  "ex_saved_annotation =
     (ex_annotation 2 ''changed.png'')\<lparr>lastModificationDate := Some ''2020-02-02'',
        lastModifiedBy := \<lparr>agent_id = ''U1'', agent_name = ''A User'',
                           agent_type = ''person''\<rparr>\<rparr>"

section \<open>explore\<close>

text \<open>
  The request body of \<^verbatim>\<open>explore\<close>, the session user, and the resolved entities and
  compilations with the fields the scan reads. The entities and annotations nested in a
  compilation are of any types \<open>'e\<close> and \<open>'n\<close>. The cursor of a query is the finite
  list of the documents it yields, in order, after \<^verbatim>\<open>sort\<close> and \<^verbatim>\<open>skip\<close>;
  \<^verbatim>\<open>cursor.next()\<close> can yield null. While the cursor has a next document it is not
  closed.
\<close>

record explore_filters =
  annotatable :: bool
  annotated :: bool
  restricted :: bool
  associated :: bool

record explore_request =
  searchEntity :: bool
  types :: "string list"
  filters :: explore_filters
  searchText :: string
  offset :: nat

record session_user =
  session_id :: objid
  session_fullname :: string
  session_mail :: string
  session_data :: "(string \<times> objid list) list"

record whitelist =
  enabled :: bool
  whitelist_persons :: "objid list"
  whitelist_groups :: "objid list"

record related_digital =
  description :: "string option"
  licence :: "string option"
  other_metadata :: "string option"

record explored_entity =
  entity_id :: objid
  entity_name :: string
  entity_annotations :: "unit jsobj"
  entity_whitelist :: whitelist
  relatedDigitalEntity :: related_digital

record ('e, 'n) explored_compilation =
  compilation_id :: "objid option"
  compilation_name :: string
  compilation_description :: string
  password :: "string option"
  compilation_whitelist :: whitelist
  compilation_entities :: "(string \<times> 'e) list"
  compilation_annotations :: "(string \<times> 'n) list"

datatype ('e, 'n) item =
    Entity_item explored_entity
  | Compilation_item "('e, 'n) explored_compilation" bool

fun item_name :: "('e, 'n) item \<Rightarrow> string" where
  "item_name (Entity_item e) = entity_name e"
| "item_name (Compilation_item c p) = compilation_name c"

text \<open>
  What \<^verbatim>\<open>explore\<close> calls: the two queries, \<^verbatim>\<open>resolve\<close> for a document of the
  cursor, \<^verbatim>\<open>JSON.stringify\<close> on a resolved entity, on a whitelist and on the data of the
  user, \<^verbatim>\<open>toLowerCase\<close>, \<^verbatim>\<open>localeCompare\<close>, the type guards \<^verbatim>\<open>isEntity\<close> and
  \<^verbatim>\<open>isAnnotation\<close> with the projections of a nested entity to
  \<^verbatim>\<open>{ mediaType, name, settings }\<close> and of a nested annotation to \<^verbatim>\<open>{ _id }\<close>, and
  \<^verbatim>\<open>RepoCache.hash\<close>. The hash is taken of the request body, which does not hold the
  user.
\<close>

record ('raw, 'e, 'n) explore_env =
  find_entities :: "string list \<Rightarrow> nat \<Rightarrow> 'raw option list"
  find_compilations :: "nat \<Rightarrow> 'raw option list"
  raw_id :: "'raw \<Rightarrow> objid option"
  resolve_entity :: "'raw \<Rightarrow> explored_entity option"
  resolve_compilation :: "'raw \<Rightarrow> ('e, 'n) explored_compilation option"
  stringify_entity :: "explored_entity \<Rightarrow> string"
  stringify_whitelist :: "whitelist \<Rightarrow> string"
  stringify_data :: "(string \<times> objid list) list \<Rightarrow> string"
  toLowerCase :: "string \<Rightarrow> string"
  localeCompare :: "string \<Rightarrow> string \<Rightarrow> int"
  isEntity :: "'e \<Rightarrow> bool"
  minimal_entity :: "'e \<Rightarrow> 'e"
  isAnnotation :: "'n \<Rightarrow> bool"
  minimal_annotation :: "'n \<Rightarrow> 'n"
  hash :: "explore_request \<Rightarrow> string"

definition limit :: nat where
  "limit = 30"

text \<open>
  The loop \<^verbatim>\<open>while (await canContinue())\<close>: \<open>candidate\<close> is the body of the loop for
  one document, \<open>None\<close> where the body says \<^verbatim>\<open>continue\<close>; \<open>go\<close> is
  \<^verbatim>\<open>types.length > 0\<close>. The result is the list collected and what is left of the cursor.
\<close>

fun scan ::
  "nat \<Rightarrow> ('raw option \<Rightarrow> 'i option) \<Rightarrow> bool \<Rightarrow> 'raw option list \<Rightarrow> 'i list \<Rightarrow>
   'i list \<times> 'raw option list" where
  "scan lim candidate go [] collected = (collected, [])"
| "scan lim candidate go (doc # cursor) collected =
     (if length collected < lim \<and> go
      then (case candidate doc of
              None \<Rightarrow> scan lim candidate go cursor collected
            | Some i \<Rightarrow> scan lim candidate go cursor (collected @ [i]))
      else (collected, doc # cursor))"

definition entity_candidate ::
  "('raw, 'e, 'n) explore_env \<Rightarrow> explore_request \<Rightarrow> session_user option \<Rightarrow> string \<Rightarrow>
   'raw option \<Rightarrow> explored_entity option" where
  "entity_candidate E req userData userOwned doc =
     (case doc of
        None \<Rightarrow> None
      | Some raw \<Rightarrow>
          if \<not> truthy_id (raw_id E raw) then None
          else
            (case resolve_entity E raw of
               None \<Rightarrow> None
             | Some resolved \<Rightarrow>
                 (let isOwner = str_includes userOwned (entity_id resolved);
                      metadata = toLowerCase E (stringify_entity E resolved);
                      isAnnotatable = isOwner;
                      isAnnotated = (0 < length (keys (entity_annotations resolved)));
                      isRestricted =
                        (if enabled (entity_whitelist resolved)
                         then (case userData of
                                 None \<Rightarrow> None
                               | Some u \<Rightarrow>
                                   (let isWhitelisted =
                                          str_includes
                                            (stringify_whitelist E (entity_whitelist resolved))
                                            (session_id u)
                                    in if \<not> isOwner \<and> \<not> isWhitelisted then None
                                       else Some True))
                         else Some False);
                      isAssociated =
                        (case userData of
                           Some u \<Rightarrow>
                             str_includes metadata (toLowerCase E (session_fullname u)) \<or>
                             str_includes metadata (toLowerCase E (session_mail u))
                         | None \<Rightarrow> False)
                  in if annotatable (filters req) \<and> \<not> isAnnotatable then None
                     else if annotated (filters req) \<and> \<not> isAnnotated then None
                     else if isRestricted = None then None
                     else if restricted (filters req) \<and> \<not> the isRestricted then None
                     else if associated (filters req) \<and> \<not> isAssociated then None
                     else if searchText req \<noteq> [] \<and> \<not> str_includes metadata (searchText req)
                     then None
                     else Some (resolved\<lparr>relatedDigitalEntity :=
                                  \<lparr>description = description (relatedDigitalEntity resolved),
                                   licence = licence (relatedDigitalEntity resolved),
                                   other_metadata = None\<rparr>\<rparr>))))"

definition compilation_candidate ::
  "('raw, 'e, 'n) explore_env \<Rightarrow> explore_request \<Rightarrow> session_user option \<Rightarrow> string \<Rightarrow>
   'raw option \<Rightarrow> (('e, 'n) explored_compilation \<times> bool) option" where
  "compilation_candidate E req userData userOwned doc =
     (case doc of
        None \<Rightarrow> None
      | Some raw \<Rightarrow>
          (case resolve_compilation E raw of
             None \<Rightarrow> None
           | Some resolved \<Rightarrow>
               if \<not> truthy_id (compilation_id resolved) then None
               else if length (compilation_entities resolved) = 0 then None
               else if searchText req \<noteq> [] \<and>
                       \<not> str_includes (toLowerCase E (compilation_name resolved)) (searchText req) \<and>
                       \<not> str_includes (toLowerCase E (compilation_description resolved))
                            (searchText req)
               then None
               else
                 (let isOwner = str_includes userOwned (the (compilation_id resolved));
                      isPWProtected = (password resolved \<noteq> None \<and> password resolved \<noteq> Some []);
                      isWhitelisted =
                        (enabled (compilation_whitelist resolved) \<and>
                         (case userData of
                            None \<Rightarrow> False
                          | Some u \<Rightarrow>
                              str_includes
                                (stringify_whitelist E (compilation_whitelist resolved))
                                (session_id u)));
                      isAnnotatable = (if isOwner then True else isWhitelisted);
                      isAnnotated = (0 < length (compilation_annotations resolved))
                  in if annotatable (filters req) \<and> \<not> isAnnotatable then None
                     else if isPWProtected \<and> \<not> isOwner \<and> \<not> isAnnotatable then None
                     else if restricted (filters req) \<and> isPWProtected then None
                     else if annotated (filters req) \<and> \<not> isAnnotated then None
                     else Some
                       (resolved\<lparr>
                          compilation_entities :=
                            map (\<lambda>(i, v). (i, minimal_entity E v))
                              (filter (\<lambda>(i, v). isEntity E v) (compilation_entities resolved)),
                          compilation_annotations :=
                            map (\<lambda>(i, v). (i, minimal_annotation E v))
                              (filter (\<lambda>(i, v). isAnnotation E v)
                                 (compilation_annotations resolved)),
                          password := None\<rparr>,
                        isPWProtected))))"

text \<open>
  \<^verbatim>\<open>items.sort((a, b) => a.name.localeCompare(b.name))\<close>, a stable sort: the items are
  inserted from the last to the first, each before the first item that does not compare
  lower, so that items of equal name stay in the order they had.
\<close>

fun insert_by_name ::
  "(string \<Rightarrow> string \<Rightarrow> int) \<Rightarrow> ('e, 'n) item \<Rightarrow> ('e, 'n) item list \<Rightarrow> ('e, 'n) item list" where
  "insert_by_name cmp x [] = [x]"
| "insert_by_name cmp x (y # ys) =
     (if cmp (item_name x) (item_name y) \<le> 0 then x # y # ys
      else y # insert_by_name cmp x ys)"

definition sort_by_name ::
  "(string \<Rightarrow> string \<Rightarrow> int) \<Rightarrow> ('e, 'n) item list \<Rightarrow> ('e, 'n) item list" where
  "sort_by_name cmp xs = foldr (insert_by_name cmp) xs []"

text \<open>
  \<^verbatim>\<open>explore\<close> answers with the sorted items and stores them in the cache under the hash
  of the request body. The cache maps a key to the items stored under it.
\<close>

definition explore ::
  "('raw, 'e, 'n) explore_env \<Rightarrow> explore_request \<Rightarrow> session_user option \<Rightarrow>
   (string \<rightharpoonup> ('e, 'n) item list) \<Rightarrow>
   ('e, 'n) item list \<times> (string \<rightharpoonup> ('e, 'n) item list)" where
  "explore E req userData cache =
     (let userOwned = (case userData of
                         Some u \<Rightarrow> stringify_data E (session_data u)
                       | None \<Rightarrow> []);
          reqHash = hash E req;
          temp = cache reqHash;
          items =
            (if temp \<noteq> None \<and> 0 < length (the temp) then the temp
             else if searchEntity req
             then map Entity_item
                    (fst (scan limit (entity_candidate E req userData userOwned)
                            (0 < length (types req))
                            (find_entities E (types req) (offset req)) []))
             else map (\<lambda>(c, p). Compilation_item c p)
                    (fst (scan limit (compilation_candidate E req userData userOwned)
                            (0 < length (types req))
                            (find_compilations E (offset req)) [])));
          items = sort_by_name (localeCompare E) items
      in (items, cache(reqHash \<mapsto> items)))"


subsection \<open>An entity with an enabled whitelist\<close>

text \<open>
  The entity E1 is restricted to its whitelist and owned by the user U1. The documents of
  the cursor are the resolved entities themselves, and the JSON texts are cut down to the
  ids they hold.
\<close>

definition ex_restricted_entity :: explored_entity where
  "ex_restricted_entity =
     \<lparr>entity_id = ''E1'', entity_name = ''Restricted'', entity_annotations = [],
      entity_whitelist = \<lparr>enabled = True, whitelist_persons = [], whitelist_groups = []\<rparr>,
      relatedDigitalEntity = \<lparr>description = Some ''d'', licence = Some ''BY'',
                               other_metadata = None\<rparr>\<rparr>"

definition ex_owner :: session_user where
  "ex_owner = \<lparr>session_id = ''U1'', session_fullname = ''A User'', session_mail = ''u@x'',
               session_data = [(''entity'', [''E1''])]\<rparr>"

definition ex_explore_env :: "(explored_entity, unit, unit) explore_env" where
  "ex_explore_env =
     \<lparr>find_entities = (\<lambda>ts skip. [Some ex_restricted_entity]),
      find_compilations = (\<lambda>skip. []),
      raw_id = (\<lambda>e. Some (entity_id e)),
      resolve_entity = Some,
      resolve_compilation = (\<lambda>e. None),
      stringify_entity = entity_name,
      stringify_whitelist = (\<lambda>w. concat (whitelist_persons w @ whitelist_groups w)),
      stringify_data = (\<lambda>d. concat (concat (map snd d))),
      toLowerCase = (\<lambda>s. s),
      localeCompare = (\<lambda>a b. 0),
      isEntity = (\<lambda>e. True),
      minimal_entity = (\<lambda>e. e),
      isAnnotation = (\<lambda>n. True),
      minimal_annotation = (\<lambda>n. n),
      hash = searchText\<rparr>"

definition ex_explore_request :: explore_request where
  "ex_explore_request =
     \<lparr>searchEntity = True, types = [''model''],
      filters = \<lparr>annotatable = False, annotated = False, restricted = False,
                 associated = False\<rparr>,
      searchText = [], offset = 0\<rparr>"

section \<open>Saving the roles of persons and institutions\<close>

subsection \<open>savePerson and saveInstitution of saveMetaDataEntity\<close>

text \<open>
  A submitted \<^verbatim>\<open>IMetaDataInstitution\<close> or \<^verbatim>\<open>IMetaDataPerson\<close>: the roles per context,
  which can be missing, the role in the entity being saved, and for a person its
  institutions. A stored record has the same shape. \<open>C\<close> is
  \<^verbatim>\<open>newEntity._id.toString()\<close>, the context being saved. The environment holds
  \<^verbatim>\<open>Mongo.resolve\<close> for institutions and persons, \<^verbatim>\<open>new ObjectId()\<close>, and
  \<open>upserted\<close>, the id that the callback of \<^verbatim>\<open>updateOne\<close> returns: there is none when
  \<^verbatim>\<open>res.upsertedId\<close> is null, where reading \<^verbatim>\<open>res.upsertedId._id\<close> throws, after
  the write.
\<close>

record submitted_institution = document +
  submitted_roles :: "string list jsobj option"
  role :: "string list option"

record submitted_person = submitted_institution +
  institution :: "submitted_institution list"

record save_env =
  resolve_institution :: "submitted_institution \<Rightarrow> submitted_institution option"
  resolve_person :: "submitted_person \<Rightarrow> submitted_person option"
  new_ObjectId :: objid
  upserted :: "string \<Rightarrow> objid option \<Rightarrow> objid option"

datatype save_write =
    Write_institution "objid option" submitted_institution
  | Write_person "objid option" submitted_person
  | Insert_user_data objid string

definition spread :: "'v jsobj \<Rightarrow> 'v jsobj \<Rightarrow> 'v jsobj" where
  \<comment> \<open>\<^verbatim>\<open>{ ...a, ...b }\<close>\<close>
  "spread a b = fold (\<lambda>(k, v) acc. assign acc k v) b a"

definition or_empty :: "'v jsobj option \<Rightarrow> 'v jsobj" where
  \<comment> \<open>the own properties a spread copies from a value that may be undefined\<close>
  "or_empty m = (case m of None \<Rightarrow> [] | Some x \<Rightarrow> x)"

definition saveInstitution ::
  "save_env \<Rightarrow> objid \<Rightarrow> submitted_institution \<Rightarrow> (error + objid) \<times> save_write list" where
  "saveInstitution E C inst =
     (let found = resolve_institution E inst;
          inst = inst\<lparr>oid := (case found of Some r \<Rightarrow> oid r | None \<Rightarrow> Some (new_ObjectId E))\<rparr>;
          inst = (case found of
                    Some r \<Rightarrow>
                      inst\<lparr>submitted_roles :=
                             Some (spread (or_empty (submitted_roles inst))
                                          (or_empty (submitted_roles r)))\<rparr>
                  | None \<Rightarrow> inst);
          inst = (if submitted_roles inst = None then inst\<lparr>submitted_roles := Some []\<rparr>
                  else inst);
          inst = inst\<lparr>submitted_roles := Some (assign (the (submitted_roles inst)) C (role inst))\<rparr>;
          write = Write_institution (oid inst) inst
      in case upserted E ''institution'' (oid inst) of
           None \<Rightarrow> (Inl TypeError, [write])
         | Some i \<Rightarrow> (Inr i, [write, Insert_user_data i ''institution'']))"

fun save_institutions ::
  "save_env \<Rightarrow> objid \<Rightarrow> submitted_institution list \<Rightarrow> (error + objid list) \<times> save_write list" where
  "save_institutions E C [] = (Inr [], [])"
| "save_institutions E C (x # xs) =
     (case saveInstitution E C x of
        (Inl e, ws) \<Rightarrow> (Inl e, ws)
      | (Inr i, ws) \<Rightarrow>
          (case save_institutions E C xs of
             (Inl e, ws') \<Rightarrow> (Inl e, ws @ ws')
           | (Inr is, ws') \<Rightarrow> (Inr (i # is), ws @ ws')))"

text \<open>
  In the record that \<^verbatim>\<open>savePerson\<close> writes, the institutions of the person are the ids
  that \<^verbatim>\<open>saveInstitution\<close> returned, here records that hold the id only.
\<close>

definition savePerson ::
  "save_env \<Rightarrow> objid \<Rightarrow> submitted_person \<Rightarrow> (error + objid) \<times> save_write list" where
  "savePerson E C person =
     (let found = resolve_person E person;
          person = person\<lparr>oid := (case found of Some r \<Rightarrow> oid r | None \<Rightarrow> Some (new_ObjectId E))\<rparr>;
          person = (case found of
                      Some r \<Rightarrow>
                        person\<lparr>submitted_roles :=
                                 Some (spread (or_empty (submitted_roles person))
                                              (or_empty (submitted_roles r)))\<rparr>
                    | None \<Rightarrow> person);
          person = (if submitted_roles person = None then person\<lparr>submitted_roles := Some []\<rparr>
                    else person);
          person = person\<lparr>submitted_roles :=
                            Some (assign (the (submitted_roles person)) C (role person))\<rparr>
      in case save_institutions E C (institution person) of
           (Inl e, ws) \<Rightarrow> (Inl e, ws)
         | (Inr is, ws) \<Rightarrow>
             (let person = person\<lparr>institution :=
                     map (\<lambda>i. \<lparr>oid = Some i, submitted_roles = None, role = None\<rparr>) is\<rparr>;
                  write = Write_person (oid person) person
              in case upserted E ''person'' (oid person) of
                   None \<Rightarrow> (Inl TypeError, ws @ [write])
                 | Some i \<Rightarrow> (Inr i, ws @ [write, Insert_user_data i ''person''])))"

text \<open>
  What the written roles \<open>written\<close> are to the submitted role and to the stored roles
  \<open>stored\<close>: the entry of the context \<open>C\<close> is the submitted role, and every entry
  the stored record has for another context is as it was stored.
\<close>

definition context_replaced ::
  "objid \<Rightarrow> string list option \<Rightarrow> string list jsobj option \<Rightarrow> string list jsobj option \<Rightarrow> bool" where
  "context_replaced C submitted_role stored written =
     (\<exists>rs. written = Some rs \<and> getprop rs C = submitted_role \<and>
           (\<forall>r k. stored = Some r \<and> distinct (keys r) \<and> k \<noteq> C \<and> k \<in> set (keys r) \<longrightarrow>
                  getprop rs k = getprop r k))"

text \<open>
  The documents written to the collection of persons, and to the collection of
  institutions, among the writes of a save, in order.
\<close>

fun person_writes :: "save_write list \<Rightarrow> submitted_person list" where
  "person_writes [] = []"
| "person_writes (Write_person i doc # ws) = doc # person_writes ws"
| "person_writes (Write_institution i doc # ws) = person_writes ws"
| "person_writes (Insert_user_data i coll # ws) = person_writes ws"

fun institution_writes :: "save_write list \<Rightarrow> submitted_institution list" where
  "institution_writes [] = []"
| "institution_writes (Write_institution i doc # ws) = doc # institution_writes ws"
| "institution_writes (Write_person i doc # ws) = institution_writes ws"
| "institution_writes (Insert_user_data i coll # ws) = institution_writes ws"

text \<open>
  The \<^verbatim>\<open>_id\<close> a record is saved under: the one of the stored record, or a new one.
\<close>

definition saved_id :: "save_env \<Rightarrow> 'z document_scheme option \<Rightarrow> objid option" where
  "saved_id E found = (case found of Some r \<Rightarrow> oid r | None \<Rightarrow> Some (new_ObjectId E))"

text \<open>The roles of the stored record, if there is one.\<close>

definition stored_roles ::
  "'z submitted_institution_scheme option \<Rightarrow> string list jsobj option" where
  "stored_roles found =
     (case found of None \<Rightarrow> None | Some r \<Rightarrow> Some (or_empty (submitted_roles r)))"

subsection \<open>addAndGetId of the older saveDigitalEntity\<close>

text \<open>
  \<^verbatim>\<open>addAndGetId\<close> takes a field of the submitted form, of type \<^verbatim>\<open>any\<close>: JavaScript
  values, with an object as the association list of its properties.
\<close>

datatype jsv = Undefined | Null | Str string | Arr "jsv list" | Obj "(string \<times> jsv) list"

definition truthy :: "jsv \<Rightarrow> bool" where
  "truthy v = (v \<noteq> Undefined \<and> v \<noteq> Null \<and> v \<noteq> Str [])"

definition get :: "(string \<times> jsv) list \<Rightarrow> string \<Rightarrow> jsv" where
  \<comment> \<open>\<^verbatim>\<open>o[k]\<close>\<close>
  "get obj k = (case map_of obj k of None \<Rightarrow> Undefined | Some v \<Rightarrow> v)"

definition put :: "(string \<times> jsv) list \<Rightarrow> string \<Rightarrow> jsv \<Rightarrow> (string \<times> jsv) list" where
  \<comment> \<open>\<^verbatim>\<open>o[k] = v\<close>\<close>
  "put obj k v = AList.update k v obj"

definition spread_obj :: "(string \<times> jsv) list \<Rightarrow> (string \<times> jsv) list \<Rightarrow> (string \<times> jsv) list" where
  \<comment> \<open>\<^verbatim>\<open>{ ...a, ...b }\<close>\<close>
  "spread_obj a b = fold (\<lambda>(k, v) acc. put acc k v) b a"

text \<open>
  \<^verbatim>\<open>flatten\<close> of the package of that name flattens nested arrays to any depth.
  \<^verbatim>\<open>Array.from(new Set(xs))\<close> keeps the first occurrence of every value; strings,
  undefined and null are compared by value, and two arrays or objects of the list count
  as different values.
\<close>

fun flatten :: "jsv list \<Rightarrow> jsv list" where
  "flatten [] = []"
| "flatten (Arr xs # rest) = flatten xs @ flatten rest"
| "flatten (x # rest) = x # flatten rest"

definition same_value :: "jsv \<Rightarrow> jsv \<Rightarrow> bool" where
  "same_value a b = (case a of Arr xs \<Rightarrow> False | Obj ps \<Rightarrow> False | _ \<Rightarrow> a = b)"

definition from_Set :: "jsv list \<Rightarrow> jsv list" where
  "from_Set xs = fold (\<lambda>x seen. if list_ex (same_value x) seen then seen else seen @ [x]) xs []"

datatype js_error = Js_TypeError | Roles_not_an_object

text \<open>
  The environment of \<^verbatim>\<open>addAndGetId\<close>: \<^verbatim>\<open>ObjectId.isValid\<close> and \<^verbatim>\<open>new ObjectId\<close> on
  the \<^verbatim>\<open>_id\<close> of the field, \<^verbatim>\<open>coll.findOne\<close>, the id \<^verbatim>\<open>new ObjectId()\<close> makes, and
  \<^verbatim>\<open>addNestedInstitution\<close>. The latter returns a person without
  \<^verbatim>\<open>person_institution\<close> as it is; otherwise it saves the institutions marked as new
  through \<^verbatim>\<open>addAndGetId\<close> on the collection of institutions and puts what that returns
  into \<^verbatim>\<open>person_institution_data\<close>, or throws. It is a parameter here: what is said
  about the roles holds whatever it returns. \<open>C\<close> is \<^verbatim>\<open>_digId\<close>, the id of the
  physical entity being saved or else of the digital entity.
\<close>

record add_id_env =
  valid_id :: "jsv \<Rightarrow> bool"
  object_id :: "jsv \<Rightarrow> objid"
  find_stored :: "string \<Rightarrow> objid \<Rightarrow> (string \<times> jsv) list option"
  made_id :: objid
  addNestedInstitution :: "(string \<times> jsv) list \<Rightarrow> js_error + (string \<times> jsv) list"

text \<open>One round of the loop over \<^verbatim>\<open>['institution_role', 'person_role']\<close>.\<close>

definition add_roles ::
  "string \<Rightarrow> bool \<Rightarrow> jsv \<Rightarrow> string \<Rightarrow> (string \<times> jsv) list \<Rightarrow> (string \<times> jsv) list" where
  "add_roles C doRolesExist new_roles prop field =
     (if \<not> truthy (get field prop) then field
      else
        (let field = put field prop (if truthy new_roles then new_roles else get field prop);
             r = (case get field ''roles'' of Obj r \<Rightarrow> r | _ \<Rightarrow> []);
             merged = (if doRolesExist then flatten [get r C, get field prop]
                       else flatten [get field prop]);
             r = put r C (Arr (from_Set merged));
             field = put field ''roles'' (Obj r)
         in put field prop (Arr [])))"

text \<open>
  The document that \<^verbatim>\<open>addAndGetId\<close> writes with \<^verbatim>\<open>$set\<close>, and the id it writes it
  under. For a person or institution whose \<^verbatim>\<open>roles\<close> is null or a string, the access
  to \<^verbatim>\<open>roles[_digId]\<close> throws; an array there, which would take the role list as
  a property of the array, is not followed further. In the last step, which removes
  null roles, the key \<^verbatim>\<open>_digId\<close> is not a property of a string or of an array.
\<close>

definition addAndGetId ::
  "add_id_env \<Rightarrow> string \<Rightarrow> (string \<times> jsv) list \<Rightarrow> string \<Rightarrow> jsv \<Rightarrow>
   js_error + objid \<times> (string \<times> jsv) list" where
  "addAndGetId E C in_field add_to_coll new_roles =
     (case (if add_to_coll = ''person'' then addNestedInstitution E in_field else Inr in_field) of
        Inl e \<Rightarrow> Inl e
      | Inr field \<Rightarrow>
     (let isPersonOrInstitution = (add_to_coll = ''person'' \<or> add_to_coll = ''institution'');
          isIdValid = valid_id E (get field ''_id'');
          i = (if isIdValid then object_id E (get field ''_id'') else made_id E);
          field = (if isIdValid
                   then (case find_stored E add_to_coll i of
                           Some findResult \<Rightarrow> spread_obj findResult field
                         | None \<Rightarrow> field)
                   else field);
          with_roles =
            (if isPersonOrInstitution
             then
               (let doRolesExist = (get field ''roles'' \<noteq> Undefined);
                    field = put field ''roles''
                              (if doRolesExist then get field ''roles'' else Obj [])
                in case get field ''roles'' of
                     Obj r \<Rightarrow>
                       (let r = put r C (if truthy (get r C) then get r C else Arr []);
                            field = put field ''roles'' (Obj r)
                        in Inr (fold (add_roles C doRolesExist new_roles)
                                  [''institution_role'', ''person_role''] field))
                   | Arr xs \<Rightarrow> Inl Roles_not_an_object
                   | _ \<Rightarrow> Inl Js_TypeError)
             else Inr field)
      in case with_roles of
           Inl e \<Rightarrow> Inl e
         | Inr field \<Rightarrow>
             (let filtered =
                    (case get field ''roles'' of
                       Obj r \<Rightarrow>
                         (if truthy (get r C)
                          then (case get r C of
                                  Arr xs \<Rightarrow> Inr (put field ''roles''
                                                    (Obj (put r C (Arr (filter truthy xs)))))
                                | _ \<Rightarrow> Inl Js_TypeError)
                          else Inr field)
                     | _ \<Rightarrow> Inr field)
              in case filtered of
                   Inl e \<Rightarrow> Inl e
                 | Inr field \<Rightarrow> Inr (i, AList.delete ''_id'' field))))"

subsection \<open>The person P, stored as AUTHOR of entity A and submitted as EDITOR\<close>

definition ex_stored_form :: "(string \<times> jsv) list" where
  "ex_stored_form =
     [(''_id'', Str ''P''), (''person_name'', Str ''Ada''),
      (''roles'', Obj [(''A'', Arr [Str ''AUTHOR'']), (''B'', Arr [Str ''EDITOR''])]),
      (''person_role'', Arr [])]"

definition ex_submitted_form :: "(string \<times> jsv) list" where
  "ex_submitted_form =
     [(''_id'', Str ''P''), (''person_name'', Str ''Ada''),
      (''person_role'', Arr [Str ''EDITOR''])]"

definition ex_add_id_env :: add_id_env where
  "ex_add_id_env =
     \<lparr>valid_id = (\<lambda>v. v = Str ''P''),
      object_id = (\<lambda>v. case v of Str s \<Rightarrow> s | _ \<Rightarrow> []),
      find_stored = (\<lambda>coll i. if coll = ''person'' \<and> i = ''P'' then Some ex_stored_form else None),
      made_id = ''Q'',
      addNestedInstitution = (\<lambda>person. if get person ''person_institution'' = Undefined
                                       then Inr person else Inl Js_TypeError)\<rparr>"

definition ex_stored_md_institution :: submitted_institution where
  "ex_stored_md_institution =
     \<lparr>oid = Some ''I'', submitted_roles = Some [(''B'', Some [''CREATOR''])],
      role = Some [''CREATOR'']\<rparr>"

definition ex_new_md_institution :: submitted_institution where
  "ex_new_md_institution =
     \<lparr>oid = None, submitted_roles = None, role = Some [''RIGHTS_OWNER'']\<rparr>"

definition ex_stored_md_person :: submitted_person where
  "ex_stored_md_person =
     \<lparr>oid = Some ''P'',
      submitted_roles = Some [(''A'', Some [''AUTHOR'']), (''B'', Some [''EDITOR''])],
      role = Some [''AUTHOR''], institution = []\<rparr>"

text \<open>
  P is submitted as EDITOR with an institution that is not stored, and again with the
  stored institution I. For a record that was stored the update inserts nothing and
  \<^verbatim>\<open>res.upsertedId\<close> is null; for a new record it holds the id.
\<close>

definition ex_submitted_md_person :: submitted_person where
  "ex_submitted_md_person =
     \<lparr>oid = Some ''P'', submitted_roles = None, role = Some [''EDITOR''],
      institution = [ex_new_md_institution]\<rparr>"

definition ex_submitted_md_person_of_I :: submitted_person where
  "ex_submitted_md_person_of_I =
     \<lparr>oid = Some ''P'', submitted_roles = None, role = Some [''EDITOR''],
      institution = [\<lparr>oid = Some ''I'', submitted_roles = None, role = Some [''PUBLISHER'']\<rparr>]\<rparr>"

definition ex_save_env :: save_env where
  "ex_save_env =
     \<lparr>resolve_institution =
        (\<lambda>i. if oid i = Some ''I'' then Some ex_stored_md_institution else None),
      resolve_person = (\<lambda>p. if oid p = Some ''P'' then Some ex_stored_md_person else None),
      new_ObjectId = ''Q'',
      upserted = (\<lambda>coll i. if i = Some ''Q'' then i else None)\<rparr>"
section \<open>Context filtering of embedded persons and institutions\<close>

lemma keys_assign_empty [simp]: "keys (assign [] k v) = [k]"
  by (simp add: keys_def assign_def)

lemma getprop_assign_same [simp]: "getprop (assign obj k v) k = v"
  by (simp add: getprop_def assign_def update_conv')

lemma assign_empty [simp]: "assign [] k v = [(k, v)]"
  by (simp add: assign_def)

lemma getprop_single [simp]: "getprop [(k, v)] k = v"
  by (simp add: getprop_def)

lemma removeUnrelatedEntities_filtered:
  "removeUnrelatedEntities isP isI obj i = Inr obj' \<Longrightarrow> filtered_for isP isI i obj obj'"
  by (auto simp add: removeUnrelatedEntities_def filtered_for_def owner_entry_def tested_def
      Let_def split: option.splits if_splits)



lemma for_each_Inr:
  "for_each f xs = Inr ys \<Longrightarrow>
   length ys = length xs \<and> (\<forall>n < length xs. f (xs ! n) = Inr (ys ! n))"
proof (induction xs arbitrary: ys)
  case Nil
  then show ?case by simp
next
  case (Cons x xs)
  from Cons.prems obtain y ys' where fx: "f x = Inr y" and r: "for_each f xs = Inr ys'"
    and ys: "ys = y # ys'"
    by (auto split: sum.splits)
  from Cons.IH [OF r] have l: "length ys' = length xs"
    and e: "\<forall>n < length xs. f (xs ! n) = Inr (ys' ! n)"
    by simp_all
  show ?case
  proof (intro conjI allI impI)
    show "length ys = length (x # xs)" using l ys by simp
  next
    fix n assume "n < length (x # xs)"
    then show "f ((x # xs) ! n) = Inr (ys ! n)"
      using fx e ys by (cases n) simp_all
  qed
qed

lemma for_each_Inl:
  "for_each f xs = Inl err \<Longrightarrow> \<exists>x \<in> set xs. f x = Inl err"
  by (induction xs) (auto split: sum.splits)


lemma resolveMetaDataEntity_persons:
  "truthy_id (oid e) \<Longrightarrow> persons e = Some ps \<Longrightarrow>
   resolveMetaDataEntity isP isI rp iu ra (Some e) = Inr (Some e') \<Longrightarrow>
   \<exists>ps'. persons e' = Some ps' \<and>
         for_each (resolveMetaDataEntity_person isP isI rp (the (oid e))) ps = Inr ps'"
  by (auto simp add: resolveMetaDataEntity_def Let_def split: option.splits sum.splits)


lemma default_roles_filtered:
  assumes "roles r' = Some [(i, v)]"
  shows "default_roles r' i =
           r'\<lparr>roles := Some [(i, Some (case v of None \<Rightarrow> [] | Some rs \<Rightarrow> rs))]\<rparr>"
  using assms by (cases v) (simp_all add: default_roles_def Let_def assign_def getprop_def)

lemma resolved_person_filtered:
  assumes res: "resolveMetaDataEntity isP isI rp iu ra (Some e) = Inr (Some e')"
    and t: "truthy_id (oid e)"
    and ps: "persons e = Some ps" and n: "n < length ps" and r: "rp (ps ! n) = Some r"
  shows "\<exists>ps' r'. persons e' = Some ps' \<and> length ps' = length ps \<and>
           filtered_for isP isI (the (oid e)) r r' \<and>
           ps' ! n = r'\<lparr>roles := Some [(the (oid e),
                        Some (case getprop (the (roles r)) (the (oid e)) of
                                None \<Rightarrow> [] | Some rs \<Rightarrow> rs))]\<rparr>"
proof -
  from resolveMetaDataEntity_persons [OF t ps res] obtain ps' where
    p': "persons e' = Some ps'" and
    f: "for_each (resolveMetaDataEntity_person isP isI rp (the (oid e))) ps = Inr ps'"
    by blast
  from for_each_Inr [OF f] n have l: "length ps' = length ps" and
    s: "resolveMetaDataEntity_person isP isI rp (the (oid e)) (ps ! n) = Inr (ps' ! n)"
    by simp_all
  from s r obtain r' where
    u: "removeUnrelatedEntities isP isI r (the (oid e)) = Inr r'" and
    d: "ps' ! n = default_roles r' (the (oid e))"
    by (auto simp add: resolveMetaDataEntity_person_def split: sum.splits)
  from removeUnrelatedEntities_filtered [OF u]
  have ff: "filtered_for isP isI (the (oid e)) r r'" .
  then obtain m where m: "roles r = Some m"
    and m': "roles r' = Some [(the (oid e), getprop m (the (oid e)))]"
    by (auto simp add: filtered_for_def owner_entry_def split: option.splits)
  from default_roles_filtered [OF m'] d m
  have "ps' ! n = r'\<lparr>roles := Some [(the (oid e),
                        Some (case getprop (the (roles r)) (the (oid e)) of
                                None \<Rightarrow> [] | Some rs \<Rightarrow> rs))]\<rparr>"
    by simp
  with p' l ff show ?thesis
    by blast
qed







lemmas ex_meta_defs =
  ex_resolved_def resolveMetaDataEntity_def ex_entity_def ex_resolvePerson_def
  truthy_id_def resolveMetaDataEntity_person_def resolveMetaDataEntity_institution_def
  ex_person_def ex_reference_def ex_institution_def default_roles_def
  removeUnrelatedEntities_def ex_isPerson_def ex_isInstitution_def
  resolveInstitution_def resolveInstitution_step_def getprop_def assign_def Let_def


lemma ex_resolved_C:
  "ex_resolved ''C'' =
     Inr (Some \<lparr>oid = Some ''C'',
       persons = Some [\<lparr>oid = Some ''P'', roles = Some [(''C'', Some [])],
                       institutions = Some [(''C'', None)],
                       contact_references = Some [(''C'', None)],
                       addresses = None, notes' = None\<rparr>],
       institutions_of = Some [\<lparr>oid = Some ''I'', roles = Some [(''C'', None)],
                       institutions = None, contact_references = None,
                       addresses = Some [(''C'', None)], notes' = Some [(''C'', None)]\<rparr>]\<rparr>)"
  by (simp add: ex_meta_defs)

lemma ex_entity_facts:
  "truthy_id (oid (ex_entity i)) = (i \<noteq> [])"
  "the (oid (ex_entity i)) = i"
  "persons (ex_entity i) = Some [ex_reference ''P'']"
  "institutions_of (ex_entity i) = Some [ex_institution]"
  "ex_resolvePerson (ex_reference ''P'') = Some ex_person"
  by (simp_all add: ex_entity_def truthy_id_def ex_resolvePerson_def ex_reference_def)

text \<open>
  An entity as \<^verbatim>\<open>saveMetaDataEntity\<close> stores it lists its institutions as references;
  \<^verbatim>\<open>resolveMetaDataEntity\<close> passes the reference to \<^verbatim>\<open>resolveInstitution\<close>, where
  the read of \<^verbatim>\<open>obj.roles[entityId]\<close> throws.
\<close>

lemma stored_reference_throws:
  "resolveMetaDataEntity ex_isPerson ex_isInstitution ex_resolvePerson (\<lambda>a. False) (\<lambda>a. a)
     (Some (ex_entity_as_stored ''A'')) = Inl Thrown_TypeError"
  by (simp add: ex_meta_defs ex_entity_as_stored_def)









text \<open>
  Claim C9. After \<^verbatim>\<open>resolveMetaDataEntity\<close> on a DigitalEntity or PhysicalEntity, every
  person of the entity that resolved has a roles map with an entry under the id of the
  entity: the stored role list of that context, or the empty list when the stored person
  had no role entry for it.
\<close>

theorem owner_roles_entry:
  assumes "resolveMetaDataEntity isPerson isInstitution rp iu ra (Some e) = Inr (Some e')"
    and "truthy_id (oid e)"
    and "persons e = Some ps" and "n < length ps" and "rp (ps ! n) = Some r"
  shows "\<exists>ps' m rs. persons e' = Some ps' \<and> roles (ps' ! n) = Some m \<and>
           the (oid e) \<in> set (keys m) \<and>
           getprop m (the (oid e)) = Some rs \<and>
           rs = (case getprop (the (roles r)) (the (oid e)) of
                   None \<Rightarrow> [] | Some stored \<Rightarrow> stored)"
proof -
  from resolved_person_filtered [OF assms] obtain ps' r' where
    "persons e' = Some ps'" and
    "ps' ! n = r'\<lparr>roles := Some [(the (oid e),
                        Some (case getprop (the (roles r)) (the (oid e)) of
                                None \<Rightarrow> [] | Some rs \<Rightarrow> rs))]\<rparr>"
    by blast
  then show ?thesis
    by (simp add: keys_def getprop_def)
qed


text \<open>P has no role under C: embedded under C its roles are the empty list under C.\<close>

theorem owner_roles_entry_witness:
  "truthy_id (oid (ex_entity ''C'')) \<and> persons (ex_entity ''C'') = Some [ex_reference ''P''] \<and>
   (0::nat) < length [ex_reference ''P''] \<and>
   ex_resolvePerson ([ex_reference ''P''] ! 0) = Some ex_person \<and>
   getprop (the (roles ex_person)) ''C'' = None \<and>
   (\<exists>e' ps' m. ex_resolved ''C'' = Inr (Some e') \<and> persons e' = Some ps' \<and>
          roles (ps' ! 0) = Some m \<and> ''C'' \<in> set (keys m) \<and> getprop m ''C'' = Some [])"
proof -
  have t: "truthy_id (oid (ex_entity ''C''))"
    by (simp add: ex_entity_facts)
  have n: "(0::nat) < length [ex_reference ''P'']"
    by simp
  have g: "getprop (the (roles ex_person)) ''C'' = None"
    by (simp add: getprop_def ex_person_def)
  have r: "ex_resolvePerson ([ex_reference ''P''] ! 0) = Some ex_person"
    by (simp add: ex_entity_facts)
  from owner_roles_entry [OF ex_resolved_C [unfolded ex_resolved_def] t
      ex_entity_facts(3) n r]
  have "\<exists>e' ps' m. ex_resolved ''C'' = Inr (Some e') \<and> persons e' = Some ps' \<and>
          roles (ps' ! 0) = Some m \<and> ''C'' \<in> set (keys m) \<and> getprop m ''C'' = Some []"
    unfolding ex_entity_facts g ex_resolved_C by simp
  with t n g show ?thesis by (simp add: ex_entity_facts)
qed
section \<open>Annotation lists and the permission checks of saveAnnotation\<close>

lemma annref_id_as_object_id [simp]: "annref_id (as_object_id a) = annref_id a"
  by (cases a) simp_all

lemma map_filter_map_Some [simp]:
  "List.map_filter (\<lambda>a. a) (map (Some \<circ> f) xs) = map f xs"
  by (induction xs) simp_all

lemma annotation_ids_result:
  "annotation_ids (map Some (map as_object_id xs)) = map annref_id xs"
  by (simp add: annotation_ids_def)

lemma as_object_id_bare:
  "\<forall>a\<in>set l. \<exists>j. a = Some (AnnId j) \<Longrightarrow>
   map Some (map as_object_id (List.map_filter (\<lambda>a. a) l)) = l"
  by (induction l) auto

text \<open>
  Claim C6. \<^verbatim>\<open>updateAnnotationList\<close> appends the annotation id to the
  \<^verbatim>\<open>annotationList\<close> of the entity or compilation with set semantics. Whether the id
  is stored as a bare id or inside a resolved annotation, an id that is present is not
  appended again: the ids of the list stay as they were (and a list of bare ids stays the
  same list); an absent id is appended once at the end. So a list without duplicate ids
  has none after the save, and the id is in the list afterwards.
\<close>

theorem annotationList_set_semantics:
  assumes "resolve0 i coll = Some obj"
  shows "\<exists>obj' new. updateAnnotationList resolve0 i coll x = Inr obj' \<and>
           annotationList obj' = Some new \<and>
           (let old = (case annotationList obj of Some l \<Rightarrow> l | None \<Rightarrow> []) in
              x \<in> set (annotation_ids new) \<and>
              (x \<in> set (annotation_ids old) \<longrightarrow> annotation_ids new = annotation_ids old) \<and>
              (x \<notin> set (annotation_ids old) \<longrightarrow> annotation_ids new = annotation_ids old @ [x]) \<and>
              (distinct (annotation_ids old) \<longrightarrow> distinct (annotation_ids new)) \<and>
              (x \<in> set (annotation_ids old) \<and> (\<forall>a\<in>set old. \<exists>j. a = Some (AnnId j)) \<longrightarrow>
                 new = old))"
proof -
  let ?old = "case annotationList obj of Some l \<Rightarrow> l | None \<Rightarrow> []"
  let ?xs = "List.map_filter (\<lambda>a. a) ?old"
  show ?thesis
  proof (cases "find (\<lambda>a. annref_id a = x) ?xs")
    case None
    then have notin: "x \<notin> set (annotation_ids ?old)"
      by (auto simp add: find_None_iff annotation_ids_def)
    have "updateAnnotationList resolve0 i coll x =
            Inr (obj\<lparr>annotationList := Some (map Some (map as_object_id (?xs @ [AnnId x])))\<rparr>)"
      using assms None by (simp add: updateAnnotationList_def Let_def)
    moreover have "annotation_ids (map Some (map as_object_id (?xs @ [AnnId x])))
        = annotation_ids ?old @ [x]"
      by (simp only: annotation_ids_result) (simp add: annotation_ids_def)
    ultimately show ?thesis using notin by (simp add: Let_def)
  next
    case (Some a)
    then have isin: "x \<in> set (annotation_ids ?old)"
      by (auto simp add: find_Some_iff annotation_ids_def)
    have "updateAnnotationList resolve0 i coll x =
            Inr (obj\<lparr>annotationList := Some (map Some (map as_object_id ?xs))\<rparr>)"
      using assms Some by (simp add: updateAnnotationList_def Let_def)
    moreover have "annotation_ids (map Some (map as_object_id ?xs)) = annotation_ids ?old"
      by (simp only: annotation_ids_result) (simp add: annotation_ids_def)
    moreover have "(\<forall>a\<in>set ?old. \<exists>j. a = Some (AnnId j)) \<longrightarrow>
        map Some (map as_object_id ?xs) = ?old"
      using as_object_id_bare by blast
    ultimately show ?thesis using isin by (simp add: Let_def)
  qed
qed

text \<open>The example of the specification: appending N1 to the list [N1] leaves [N1].\<close>

theorem annotationList_set_semantics_witness:
  "ex_resolve0 ''K1'' ''compilation'' = Some ex_compilation \<and>
   (\<exists>obj'. updateAnnotationList ex_resolve0 ''K1'' ''compilation'' ''N1'' = Inr obj' \<and>
           annotationList obj' = Some [Some (AnnId ''N1'')])"
proof -
  have r: "ex_resolve0 ''K1'' ''compilation'' = Some ex_compilation"
    by (simp add: ex_resolve0_def)
  from annotationList_set_semantics
    [of ex_resolve0 "''K1''" "''compilation''" ex_compilation "''N1''", OF r]
  show ?thesis
    by (auto simp add: r ex_compilation_def annotation_ids_def Let_def)
qed

text \<open>
  The copies that \<^verbatim>\<open>addAnnotationsToAnnotationList\<close> appends carry new ids: the ids of
  the stored list are followed by the ids of the copies, and no id is there twice when
  the stored ids were distinct and the new ids are new.
\<close>

lemma map_filter_Some_append:
  "List.map_filter (\<lambda>a. a) (map (Some \<circ> f) (xs @ ys)) = map f xs @ map f ys"
  by (simp add: List.map_filter_def comp_def)

lemma addAnnotationsToAnnotationList_ids:
  "annotation_ids (addAnnotationsToAnnotationList_list stored validAnnotations) =
     annotation_ids (case stored of Some l \<Rightarrow> l | None \<Rightarrow> []) @ map aid validAnnotations"
  unfolding addAnnotationsToAnnotationList_list_def annotation_ids_def map_filter_Some_append
  by (simp add: comp_def)

lemma addAnnotationsToAnnotationList_distinct:
  assumes "distinct (annotation_ids (case stored of Some l \<Rightarrow> l | None \<Rightarrow> []))"
    and "distinct (map aid validAnnotations)"
    and "set (map aid validAnnotations)
           \<inter> set (annotation_ids (case stored of Some l \<Rightarrow> l | None \<Rightarrow> [])) = {}"
  shows "distinct (annotation_ids (addAnnotationsToAnnotationList_list stored validAnnotations))"
  using assms by (auto simp add: addAnnotationsToAnnotationList_ids)

text \<open>
  For a requester who owns the compilation and not the annotation, the permission checks
  reject exactly when the stored body and the submitted body are the same object.
\<close>

lemma compilation_owner_gate:
  "isValid E comp_id \<Longrightarrow> isUserOwnerOfEntity E u comp_id \<Longrightarrow>
   resolveAnnotation E a = Some old \<Longrightarrow>
   permission_gate E a u False ent comp_id = (\<not> strict_eq_body (body old) (body a))"
  by (simp add: permission_gate_def Let_def)

lemma same_body_accepted:
  "fst (saveAnnotation ex_env (ex_annotation 2 ''stored.png'') ex_user True) =
     Inr ((ex_annotation 2 ''stored.png'')\<lparr>lastModificationDate := Some ''2020-02-02'',
             lastModifiedBy := \<lparr>agent_id = ''U1'', agent_name = ''A User'',
                                agent_type = ''person''\<rparr>\<rparr>)"
  by (simp add: saveAnnotation_def ex_env_def ex_annotation_def ex_user_def permission_gate_def
      store_annotation_def updateAnnotationList_def ex_resolve0_def ex_compilation_def
      ex_stored_annotation_def strict_eq_body_def truthy_string_def Let_def)

text \<open>
  Claim C3. A requester who owns the target compilation and not the existing annotation
  may resubmit the stored body, and a submission whose body differs from the stored one
  is to be rejected with a permission error. The code does not reject it: the submitted
  annotation, whose perspective preview differs from the stored one, is accepted, its
  modification stamp is set and the annotation list of the compilation is written.
\<close>

theorem body_change_accepted:
  "saveAnnotation ex_env (ex_annotation 2 ''changed.png'') ex_user True =
     (Inr ((ex_annotation 2 ''changed.png'')\<lparr>lastModificationDate := Some ''2020-02-02'',
             lastModifiedBy := \<lparr>agent_id = ''U1'', agent_name = ''A User'',
                                agent_type = ''person''\<rparr>\<rparr>),
      [SaveImage ''annotation'' ''N1'',
       UpdateAnnotationList ''compilation'' ''K1'' [Some (AnnId ''N1'')]])"
  by (simp add: saveAnnotation_def ex_env_def ex_annotation_def ex_user_def permission_gate_def
      store_annotation_def updateAnnotationList_def ex_resolve0_def ex_compilation_def
      ex_stored_annotation_def strict_eq_body_def truthy_string_def Let_def)

section \<open>The last owner of an entity\<close>

lemma length_filter_update_first:
  "length (filter P xs) \<le> Suc (length (filter P (update_first Q y xs)))"
  by (induction xs) auto

lemma filter_update_first_mono:
  "P y \<Longrightarrow> length (filter P xs) \<le> length (filter P (update_first Q y xs))"
  by (induction xs) auto

lemma owners_length: "length (findAllEntityOwners users e) = length (filter (is_owner_of e) users)"
  by (simp add: findAllEntityOwners_def)

lemma startsWith_refl: "startsWith (t @ s) t"
  by (induction t) auto

lemma str_includes_here: "str_includes (t @ s) t"
  by (cases "t @ s") (use startsWith_refl [of t s] in auto)

lemma str_includes_append: "str_includes (p @ t @ s) t"
  by (induction p) (auto simp add: str_includes_here)

lemma join_comma_mem:
  "x \<in> set xs \<Longrightarrow> \<exists>p s. join_comma xs = p @ x @ s"
proof (induction xs rule: join_comma.induct)
  case 1
  then show ?case by simp
next
  case (2 y)
  then show ?case by (auto intro: exI [of _ "[]"])
next
  case (3 a b ys)
  show ?case
  proof (cases "x = a")
    case True
    then show ?thesis by (auto intro: exI [of _ "[]"])
  next
    case False
    with 3 obtain p s where "join_comma (b # ys) = p @ x @ s" by auto
    then have "join_comma (a # b # ys) = (a @ '','' @ p) @ x @ s" by simp
    then show ?thesis by blast
  qed
qed

lemma is_owner_of_member:
  assumes "Some e \<in> set l"
  shows "is_owner_of e (acc\<lparr>owned := Some l\<rparr>)"
proof -
  let ?f = "\<lambda>x. case x of None \<Rightarrow> ''null'' | Some i \<Rightarrow> [CHR 0x22] @ i @ [CHR 0x22]"
  from assms have "?f (Some e) \<in> ?f ` set l" by (rule imageI)
  then have "?f (Some e) \<in> set (map ?f l)" by simp
  then obtain p s where "join_comma (map ?f l) = p @ ?f (Some e) @ s"
    using join_comma_mem by blast
  then have eq: "''['' @ join_comma (map ?f l) @ '']''
      = (''['' @ p @ [CHR 0x22]) @ e @ ([CHR 0x22] @ s @ '']'')"
    by simp
  have inc: "str_includes (''['' @ join_comma (map ?f l) @ '']'') e"
    by (subst eq) (rule str_includes_append)
  have o: "owned (acc\<lparr>owned := Some l\<rparr>) = Some l"
    by simp
  show ?thesis
    by (simp only: is_owner_of_def stringify_ids_def o option.case inc)
qed

lemma applyActionToEntityOwner_error:
  "applyActionToEntityOwner valid exists ok request users = (response, users') \<Longrightarrow>
   response \<noteq> Ok \<Longrightarrow> users' = users"
  unfolding applyActionToEntityOwner_def Let_def
  by (auto split: if_splits option.splits)

lemma applyActionToEntityOwner_add:
  "applyActionToEntityOwner valid exists ok request users = (Ok, users') \<Longrightarrow>
   req_command request = Some ''add'' \<Longrightarrow>
   length (filter (is_owner_of (the (req_entityId request))) users)
     \<le> length (filter (is_owner_of (the (req_entityId request))) users')"
  unfolding applyActionToEntityOwner_def Let_def
  by (auto split: if_splits option.splits simp add: find_None_iff
      intro!: filter_update_first_mono is_owner_of_member)

lemma applyActionToEntityOwner_remove:
  "applyActionToEntityOwner valid exists ok request users = (Ok, users') \<Longrightarrow>
   req_command request \<noteq> Some ''add'' \<Longrightarrow>
   length (findAllEntityOwners users (the (req_entityId request))) \<noteq> 1 \<and>
   length (filter (is_owner_of (the (req_entityId request))) users)
     \<le> Suc (length (filter (is_owner_of (the (req_entityId request))) users'))"
  unfolding applyActionToEntityOwner_def Let_def
  by (auto split: if_splits option.splits intro!: length_filter_update_first)

text \<open>
  Claim C7, as amended. \<^verbatim>\<open>applyActionToEntityOwner\<close> rejects the command
  \<^verbatim>\<open>remove\<close> when \<^verbatim>\<open>findAllEntityOwners\<close> counts exactly one owner of the entity: the
  response is an error and the accounts are not written. Every response other than
  \<^verbatim>\<open>ok\<close> leaves the accounts as they were, and an entity that has an owner before a
  call of \<^verbatim>\<open>applyActionToEntityOwner\<close> for it has one after the call.
\<close>

theorem last_owner_guard:
  assumes "applyActionToEntityOwner valid exists ok request users = (response, users')"
  shows "(req_command request = Some ''remove'' \<and>
          length (findAllEntityOwners users (the (req_entityId request))) = 1 \<longrightarrow>
            response \<noteq> Ok \<and> users' = users) \<and>
         (response \<noteq> Ok \<longrightarrow> users' = users) \<and>
         (findAllEntityOwners users (the (req_entityId request)) \<noteq> [] \<longrightarrow>
            findAllEntityOwners users' (the (req_entityId request)) \<noteq> [])"
proof (cases "response = Ok")
  case False
  with applyActionToEntityOwner_error [OF assms] show ?thesis by simp
next
  case True
  let ?P = "is_owner_of (the (req_entityId request))"
  show ?thesis
  proof (cases "req_command request = Some ''add''")
    case add: True
    from applyActionToEntityOwner_add [OF assms [unfolded True] add]
    have "filter ?P users \<noteq> [] \<longrightarrow> filter ?P users' \<noteq> []"
      by auto
    with True add show ?thesis by (simp add: findAllEntityOwners_def)
  next
    case remove: False
    from applyActionToEntityOwner_remove [OF assms [unfolded True] remove]
    have n: "length (filter ?P users) \<noteq> 1"
      and le: "length (filter ?P users) \<le> Suc (length (filter ?P users'))"
      by (simp_all add: owners_length)
    have "filter ?P users \<noteq> [] \<longrightarrow> filter ?P users' \<noteq> []"
    proof
      assume "filter ?P users \<noteq> []"
      then have "0 < length (filter ?P users)" by simp
      with n have "2 \<le> length (filter ?P users)" by arith
      with le have "0 < length (filter ?P users')" by arith
      then show "filter ?P users' \<noteq> []" by simp
    qed
    with True n show ?thesis by (simp add: findAllEntityOwners_def)
  qed
qed

text \<open>The sole owner of M1 asks to be removed: rejected, nothing written.\<close>

lemma sole_owner_rejected:
  "applyActionToEntityOwner (\<lambda>s. True) (\<lambda>s. True) True ex_remove [ex_account] =
     (Cannot_remove_last_owner, [ex_account])"
  by (simp add: applyActionToEntityOwner_def ex_remove_def ex_account_def truthy_string_def
      findAllEntityOwners_def is_owner_of_def stringify_ids_def Let_def)

text \<open>
  Claim C7 as stated covers every owner-array mutation. The older
  \<^verbatim>\<open>applyActionToModelOwner\<close> has no check of the number of owners: the sole owner of
  M1 is removed, the account is written and M1 is left without an owner.
\<close>

theorem model_owner_removed:
  "applyActionToModelOwner (\<lambda>s. True) (\<lambda>s. True) True ex_remove [ex_account] =
     (Ok, [ex_account\<lparr>owned := Some []\<rparr>]) \<and>
   length (findAllEntityOwners [ex_account] ''M1'') = 1 \<and>
   findAllEntityOwners [ex_account\<lparr>owned := Some []\<rparr>] ''M1'' = []"
  by (simp add: applyActionToModelOwner_def ex_remove_def ex_account_def truthy_string_def
      findAllEntityOwners_def is_owner_of_def stringify_ids_def Let_def)

theorem last_owner_guard_witness:
  "req_command ex_remove = Some ''remove'' \<and>
   length (findAllEntityOwners [ex_account] (the (req_entityId ex_remove))) = 1 \<and>
   applyActionToEntityOwner (\<lambda>s. True) (\<lambda>s. True) True ex_remove [ex_account] =
     (Cannot_remove_last_owner, [ex_account]) \<and>
   findAllEntityOwners [ex_account] ''M1'' \<noteq> []"
proof -
  have c: "req_command ex_remove = Some ''remove''"
    and e: "the (req_entityId ex_remove) = ''M1''"
    by (simp_all add: ex_remove_def)
  have n: "length (findAllEntityOwners [ex_account] ''M1'') = 1"
    by (simp add: ex_account_def findAllEntityOwners_def is_owner_of_def stringify_ids_def)
  from n have ne: "findAllEntityOwners [ex_account] ''M1'' \<noteq> []"
    by auto
  from last_owner_guard [OF sole_owner_rejected] c n e ne
  show ?thesis
    by (simp add: sole_owner_rejected)
qed

section \<open>resolve and its depth argument\<close>

lemma depth_test_never_holds: "\<not> (truthy_number depth \<and> depth = Some 0)"
  by (simp add: truthy_number_def split: option.splits)

text \<open>
  The test \<^verbatim>\<open>depth && depth === 0\<close> is false for every depth, 0 being falsy: a call
  with depth 0 is the call without a depth.
\<close>

lemma resolve_depth_ignored:
  "resolve R obj coll depth cache = resolve R obj coll None cache"
  by (simp add: resolve_def depth_test_never_holds cong: option.case_cong if_cong)

text \<open>
  Claim C4. \<^verbatim>\<open>resolve\<close> with depth 0 is to return the stored record as fetched, no
  strategy applied. On the stored entity E1, whose annotation N1 is a bare reference, the
  call with depth 0 returns the entity with the annotation resolved, and stores that in
  the cache: the strategy for entities has run.
\<close>

theorem resolve_depth_zero_hydrates:
  "resolve ex_resolver (Id_arg ''E1'') ''entity'' (Some 0) Map.empty =
     (Some (ex_stored_entity\<lparr>doc_annotations := [(''N1'', Some ''annotation text'')]\<rparr>),
      [''E1'' \<mapsto> ex_stored_entity\<lparr>doc_annotations := [(''N1'', Some ''annotation text'')]\<rparr>])"
  by (simp add: resolve_def parsedId_of_def ex_resolver_def ex_stored_entity_def
      truthy_number_def Let_def)

section \<open>The cache flush of addEntityToCollection\<close>

lemma owner_strategy:
  "fst (saveAnnotation (ex_env\<lparr>isUserOwnerOfEntity := (\<lambda>u i. True)\<rparr>)
               ((ex_annotation 2 ''changed.png'')\<lparr>aid := ''N1''\<rparr>) ex_user True) =
   Inr ex_saved_annotation"
  by (simp add: saveAnnotation_def ex_env_def ex_annotation_def ex_user_def
      permission_gate_def store_annotation_def updateAnnotationList_def ex_resolve0_def
      ex_compilation_def truthy_string_def ex_saved_annotation_def Let_def)

lemma unacknowledged_save:
  "addEntityToCollection ex_add_env_owner ex_add_request =
     (Status500_failed_updating, [Flush, UpdateOne ''annotation'' ''N1'' ex_saved_annotation])"
  by (simp add: addEntityToCollection_def ex_add_env_owner_def ex_add_env_def
      ex_add_request_def update_and_reply_def owner_strategy Let_def)

lemma denied_save:
  "addEntityToCollection ex_add_env ex_add_request = (Status500_error Permission_denied, [Flush])"
  by (simp add: addEntityToCollection_def ex_add_env_def ex_add_request_def
      saveAnnotation_def ex_env_def ex_annotation_def ex_user_def permission_gate_def Let_def)

lemma denied_save_silent:
  "addEntityToCollection ex_add_env_silent ex_add_request =
     (Status200 None,
      [Flush, UpdateOne ''annotation'' ''N1'' (ex_annotation 2 ''changed.png''),
       Resolve ''N1'' ''annotation''])"
  by (simp add: addEntityToCollection_def ex_add_env_silent_def ex_add_env_def
      ex_add_request_def saveAnnotation_def ex_env_def ex_annotation_def ex_user_def
      permission_gate_def update_and_reply_def Let_def)

text \<open>
  Claim C5 as stated: a save that fails surfaces the error and leaves the cache as it is.
  The owner's save whose write is not acknowledged is answered with status 500, and the
  cache has been flushed. The annotation save of a requester who owns nothing is denied by
  the strategy: when \<^verbatim>\<open>Logger.err\<close> returns a truthy value the error is sent with
  status 500, nothing is written, and the cache has been flushed; when it returns a falsy
  value the handler sends nothing, the cache has been flushed, the denied annotation is
  written and the reply is status 200.
\<close>

theorem failed_save_flushes:
  "addEntityToCollection ex_add_env_owner ex_add_request =
     (Status500_failed_updating, [Flush, UpdateOne ''annotation'' ''N1'' ex_saved_annotation]) \<and>
   addEntityToCollection ex_add_env ex_add_request =
     (Status500_error Permission_denied, [Flush]) \<and>
   addEntityToCollection ex_add_env_silent ex_add_request =
     (Status200 None,
      [Flush, UpdateOne ''annotation'' ''N1'' (ex_annotation 2 ''changed.png''),
       Resolve ''N1'' ''annotation''])"
  by (simp add: unacknowledged_save denied_save denied_save_silent)

lemma flushed_once:
  assumes "addEntityToCollection E req = (r, steps)"
  shows "\<exists>rest. steps = Flush # rest \<and> Flush \<notin> set rest"
  using assms
  unfolding addEntityToCollection_def Let_def
  by (auto split: option.splits sum.splits prod.splits if_splits
      simp add: update_and_reply_def Let_def)

lemma unacknowledged_write:
  assumes "addEntityToCollection E req = (r, steps)"
    and "UpdateOne coll i entity \<in> set steps" and "\<not> update_acknowledged E coll i entity"
  shows "r = Status500_failed_updating"
  using assms
  unfolding addEntityToCollection_def Let_def
  by (auto split: option.splits sum.splits prod.splits if_splits
      simp add: update_and_reply_def Let_def)

lemma rejected_save:
  assumes "find (\<lambda>(guard, save). guard (set_id E (submitted req)
                   (if isValidObjectId req then submitted_id req else fresh_id E)))
              (strategies E) = Some (guard, save)"
    and "save (set_id E (submitted req)
                   (if isValidObjectId req then submitted_id req else fresh_id E))
              (requester req) = Inl (err, entity)"
  shows "addEntityToCollection E req =
           (if logger_err E err then (Status500_error err, [Flush])
            else (fst (update_and_reply E (collectionName req)
                         (if isValidObjectId req then submitted_id req else fresh_id E) entity),
                  Flush # snd (update_and_reply E (collectionName req)
                         (if isValidObjectId req then submitted_id req else fresh_id E) entity)))"
  using assms
  by (simp add: addEntityToCollection_def Let_def split: prod.splits)

text \<open>
  Claim C5, as amended. \<^verbatim>\<open>addEntityToCollection\<close> flushes the cache once, as its first
  step, before the saving strategy runs and whatever the outcome of the save. When the
  write to the collection is not acknowledged, the reply is status 500. When the strategy
  rejects and \<^verbatim>\<open>Logger.err\<close> returns a truthy value, the error is sent with status
  500 and the collection is not written. (The handler is
  \<^verbatim>\<open>Logger.err(err) && res.status(500).send(err)\<close>; the theorem also gives the other
  case, where nothing is sent and the function goes on to the write with the document as
  the strategy left it.)
\<close>

theorem flush_before_save:
  assumes "addEntityToCollection E req = (r, steps)"
  shows "(\<exists>rest. steps = Flush # rest \<and> Flush \<notin> set rest) \<and>
         (\<forall>guard save err entity.
            find (\<lambda>(guard, save). guard (set_id E (submitted req)
                   (if isValidObjectId req then submitted_id req else fresh_id E)))
              (strategies E) = Some (guard, save) \<and>
            save (set_id E (submitted req)
                   (if isValidObjectId req then submitted_id req else fresh_id E))
              (requester req) = Inl (err, entity) \<longrightarrow>
            (if logger_err E err then r = Status500_error err \<and> steps = [Flush]
             else r = fst (update_and_reply E (collectionName req)
                             (if isValidObjectId req then submitted_id req else fresh_id E)
                             entity) \<and>
                  steps = Flush # snd (update_and_reply E (collectionName req)
                             (if isValidObjectId req then submitted_id req else fresh_id E)
                             entity))) \<and>
         (\<forall>coll i entity. UpdateOne coll i entity \<in> set steps \<and>
            \<not> update_acknowledged E coll i entity \<longrightarrow> r = Status500_failed_updating)"
proof (intro conjI allI impI)
  show "\<exists>rest. steps = Flush # rest \<and> Flush \<notin> set rest"
    using assms by (rule flushed_once)
next
  fix guard save err entity
  assume "find (\<lambda>(guard, save). guard (set_id E (submitted req)
                   (if isValidObjectId req then submitted_id req else fresh_id E)))
              (strategies E) = Some (guard, save) \<and>
            save (set_id E (submitted req)
                   (if isValidObjectId req then submitted_id req else fresh_id E))
              (requester req) = Inl (err, entity)"
  then show "if logger_err E err then r = Status500_error err \<and> steps = [Flush]
             else r = fst (update_and_reply E (collectionName req)
                             (if isValidObjectId req then submitted_id req else fresh_id E)
                             entity) \<and>
                  steps = Flush # snd (update_and_reply E (collectionName req)
                             (if isValidObjectId req then submitted_id req else fresh_id E)
                             entity)"
    using assms rejected_save [of E req guard save err entity] by (simp split: if_splits)
next
  fix coll i entity
  assume "UpdateOne coll i entity \<in> set steps \<and> \<not> update_acknowledged E coll i entity"
  with assms show "r = Status500_failed_updating"
    by (blast dest: unacknowledged_write)
qed

text \<open>
  The denied save with either \<^verbatim>\<open>Logger.err\<close> and the save whose write is not
  acknowledged: all three start with the flush and flush once; the first writes nothing,
  the second goes on to the write, the third answers with status 500.
\<close>

theorem flush_before_save_witness:
  "addEntityToCollection ex_add_env ex_add_request =
     (Status500_error Permission_denied, [Flush]) \<and>
   logger_err ex_add_env Permission_denied \<and>
   addEntityToCollection ex_add_env_silent ex_add_request =
     (Status200 None,
      [Flush, UpdateOne ''annotation'' ''N1'' (ex_annotation 2 ''changed.png''),
       Resolve ''N1'' ''annotation'']) \<and>
   \<not> logger_err ex_add_env_silent Permission_denied \<and>
   update_and_reply ex_add_env_silent ''annotation'' ''N1'' (ex_annotation 2 ''changed.png'') =
     (Status200 None,
      [UpdateOne ''annotation'' ''N1'' (ex_annotation 2 ''changed.png''),
       Resolve ''N1'' ''annotation'']) \<and>
   addEntityToCollection ex_add_env_owner ex_add_request =
     (Status500_failed_updating, [Flush, UpdateOne ''annotation'' ''N1'' ex_saved_annotation]) \<and>
   \<not> update_acknowledged ex_add_env_owner ''annotation'' ''N1'' ex_saved_annotation \<and>
   (\<exists>rest. [Flush, UpdateOne ''annotation'' ''N1'' ex_saved_annotation] = Flush # rest \<and>
           Flush \<notin> set rest)"
proof -
  have l: "logger_err ex_add_env Permission_denied"
    by (simp add: ex_add_env_def)
  have l': "\<not> logger_err ex_add_env_silent Permission_denied"
    by (simp add: ex_add_env_silent_def)
  have u: "\<not> update_acknowledged ex_add_env_owner ''annotation'' ''N1'' ex_saved_annotation"
    by (simp add: ex_add_env_owner_def ex_add_env_def)
  have w: "update_and_reply ex_add_env_silent ''annotation'' ''N1''
             (ex_annotation 2 ''changed.png'') =
     (Status200 None,
      [UpdateOne ''annotation'' ''N1'' (ex_annotation 2 ''changed.png''),
       Resolve ''N1'' ''annotation''])"
    by (simp add: update_and_reply_def ex_add_env_silent_def ex_add_env_def)
  note a = flush_before_save [OF denied_save, THEN conjunct1]
  note b = flush_before_save [OF unacknowledged_save, THEN conjunct1]
  note c = flush_before_save [OF denied_save_silent, THEN conjunct1]
  from a b c l l' u w show ?thesis
    by (simp add: denied_save unacknowledged_save denied_save_silent)
qed
section \<open>The scan of explore\<close>



lemma scan_from_candidates:
  "set (fst (scan lim candidate go cursor collected))
     \<subseteq> set collected \<union> {i. \<exists>doc \<in> set cursor. candidate doc = Some i}"
proof (induction cursor arbitrary: collected)
  case Nil
  then show ?case by simp
next
  case (Cons doc cursor)
  from Cons.IH [of collected] Cons.IH [of "collected @ [the (candidate doc)]"]
  show ?case by (auto split: option.splits)
qed

lemma length_insert_by_name [simp]: "length (insert_by_name cmp x xs) = Suc (length xs)"
  by (induction xs) auto

lemma set_insert_by_name [simp]: "set (insert_by_name cmp x xs) = insert x (set xs)"
  by (induction xs) auto

lemma length_sort_by_name [simp]: "length (sort_by_name cmp xs) = length xs"
  by (induction xs) (auto simp add: sort_by_name_def)

lemma set_sort_by_name [simp]: "set (sort_by_name cmp xs) = set xs"
  by (induction xs) (auto simp add: sort_by_name_def)

text \<open>The sort is stable: the items of one name come out in the order they went in.\<close>

lemma filter_insert_by_name:
  assumes "\<And>s. cmp s s \<le> 0"
  shows "filter (\<lambda>y. item_name y = n) (insert_by_name cmp x ys) =
           (if item_name x = n then x # filter (\<lambda>y. item_name y = n) ys
            else filter (\<lambda>y. item_name y = n) ys)"
proof (induction ys)
  case Nil
  then show ?case by simp
next
  case (Cons y ys)
  show ?case
  proof (cases "cmp (item_name x) (item_name y) \<le> 0")
    case True
    then show ?thesis by simp
  next
    case False
    with assms [of "item_name x"] have "item_name x \<noteq> item_name y"
      by auto
    with False Cons.IH show ?thesis
      by auto
  qed
qed

lemma sort_by_name_stable:
  assumes "\<And>s. cmp s s \<le> 0"
  shows "filter (\<lambda>y. item_name y = n) (sort_by_name cmp xs) =
           filter (\<lambda>y. item_name y = n) xs"
  by (induction xs) (simp_all add: sort_by_name_def filter_insert_by_name [OF assms])




lemma anonymous_candidate:
  "entity_candidate E req None userOwned doc = Some e \<Longrightarrow> \<not> enabled (entity_whitelist e)"
  by (auto simp add: entity_candidate_def Let_def split: option.splits if_splits)


lemma anonymous_scan:
  assumes "cache (hash E req) = None" and "searchEntity req"
    and "Entity_item e \<in> set (fst (explore E req None cache))"
  shows "\<not> enabled (entity_whitelist e)"
proof -
  from assms have "e \<in> set (fst (scan limit (entity_candidate E req None [])
      (0 < length (types req)) (find_entities E (types req) (offset req)) []))"
    by (auto simp add: explore_def Let_def)
  with scan_from_candidates obtain doc where "entity_candidate E req None [] doc = Some e"
    by fastforce
  then show ?thesis by (rule anonymous_candidate)
qed


text \<open>
  Claim C10. A request without a session user is to yield no entity whose whitelist is
  enabled. The scan does skip such an entity for an anonymous requester (lemmas
  \<open>anonymous_candidate\<close> and \<open>anonymous_scan\<close>), and with an empty cache the anonymous
  request yields nothing. But the reply is cached under the hash of the request body,
  which does not hold the user: after the owner of the restricted entity E1 has sent the
  request, the same request without a session user is answered from the cache and yields
  E1.
\<close>

theorem anonymous_request_yields_restricted:
  "fst (explore ex_explore_env ex_explore_request None Map.empty) = [] \<and>
   fst (explore ex_explore_env ex_explore_request None
          (snd (explore ex_explore_env ex_explore_request (Some ex_owner) Map.empty)))
     = [Entity_item ex_restricted_entity] \<and>
   enabled (entity_whitelist ex_restricted_entity)"
  by (simp add: explore_def entity_candidate_def ex_explore_env_def ex_explore_request_def
      ex_owner_def ex_restricted_entity_def limit_def truthy_id_def keys_def sort_by_name_def
      Let_def)

section \<open>Roles of a context on re-save\<close>

lemma getprop_assign: "getprop (assign m k v) k' = (if k' = k then v else getprop m k')"
  by (simp add: getprop_def assign_def update_conv')

lemma keys_assign: "set (keys (assign m k v)) = insert k (set (keys m))"
  by (auto simp add: keys_def assign_def dom_update)

lemma map_of_fold_assign:
  "distinct (map fst b) \<Longrightarrow>
   map_of (fold (\<lambda>(k, v) acc. assign acc k v) b a) k =
     (case map_of b k of Some v \<Rightarrow> Some v | None \<Rightarrow> map_of a k)"
proof (induction b arbitrary: a)
  case Nil
  then show ?case by simp
next
  case (Cons p b)
  obtain k' v' where p: "p = (k', v')" by (cases p)
  from Cons.prems p have d: "distinct (map fst b)" and n: "map_of b k' = None"
    by (auto simp add: map_of_eq_None_iff)
  from Cons.IH [OF d, of "assign a k' v'"] p n show ?case
    by (auto simp add: assign_def update_conv' split: option.splits)
qed

lemma getprop_spread:
  assumes "distinct (keys b)"
  shows "getprop (spread a b) k = (if k \<in> set (keys b) then getprop b k else getprop a k)"
proof (cases "map_of b k")
  case None
  then have "k \<notin> set (keys b)"
    by (simp add: keys_def map_of_eq_None_iff)
  with None assms show ?thesis
    by (simp add: spread_def keys_def getprop_def map_of_fold_assign)
next
  case (Some v)
  then have "k \<in> set (keys b)"
    by (force simp add: keys_def dest: map_of_SomeD)
  with Some assms show ?thesis
    by (simp add: spread_def keys_def getprop_def map_of_fold_assign)
qed

lemma person_writes_append [simp]:
  "person_writes (ws @ ws') = person_writes ws @ person_writes ws'"
  by (induction ws rule: person_writes.induct) simp_all

lemma institution_writes_append [simp]:
  "institution_writes (ws @ ws') = institution_writes ws @ institution_writes ws'"
  by (induction ws rule: institution_writes.induct) simp_all

lemma saveInstitution_write:
  "\<exists>doc rest. snd (saveInstitution E C inst) = Write_institution (oid doc) doc # rest \<and>
     (rest = [] \<or> (\<exists>i. rest = [Insert_user_data i ''institution''])) \<and>
     oid doc = saved_id E (resolve_institution E inst) \<and>
     context_replaced C (role inst) (stored_roles (resolve_institution E inst))
       (submitted_roles doc)"
  unfolding saveInstitution_def Let_def context_replaced_def saved_id_def stored_roles_def
  by (auto split: option.splits simp add: getprop_assign getprop_spread)

lemma saveInstitution_returns:
  "(\<exists>i. fst (saveInstitution E C inst) = Inr i) =
     (upserted E ''institution'' (saved_id E (resolve_institution E inst)) \<noteq> None)"
  unfolding saveInstitution_def Let_def saved_id_def
  by (auto split: option.splits)

lemma saveInstitution_writes:
  "person_writes (snd (saveInstitution E C inst)) = [] \<and>
   (\<exists>doc. institution_writes (snd (saveInstitution E C inst)) = [doc] \<and>
      context_replaced C (role inst) (stored_roles (resolve_institution E inst))
        (submitted_roles doc))"
  using saveInstitution_write [of E C inst] by auto

lemma save_institutions_person_writes:
  "person_writes (snd (save_institutions E C xs)) = []"
proof (induction xs)
  case Nil
  then show ?case by simp
next
  case (Cons x xs)
  with saveInstitution_writes [of E C x] show ?case
    by (auto split: prod.splits sum.splits)
qed

lemma save_institutions_institution_writes:
  "doc \<in> set (institution_writes (snd (save_institutions E C xs))) \<Longrightarrow>
   \<exists>x \<in> set xs. context_replaced C (role x) (stored_roles (resolve_institution E x))
                  (submitted_roles doc)"
proof (induction xs)
  case Nil
  then show ?case by simp
next
  case (Cons x xs)
  with saveInstitution_writes [of E C x] show ?case
    by (auto split: prod.splits sum.splits)
qed

lemma save_institutions_returns:
  "(\<exists>ids. fst (save_institutions E C xs) = Inr ids) =
     (\<forall>x \<in> set xs. upserted E ''institution'' (saved_id E (resolve_institution E x)) \<noteq> None)"
proof (induction xs)
  case Nil
  then show ?case by simp
next
  case (Cons x xs)
  with saveInstitution_returns [of E C x] show ?case
    by (auto split: prod.splits sum.splits)
qed

lemma savePerson_throws:
  assumes "fst (save_institutions E C (institution person)) = Inl e"
  shows "fst (savePerson E C person) = Inl e \<and> person_writes (snd (savePerson E C person)) = []"
  using assms save_institutions_person_writes [of E C "institution person"]
  unfolding savePerson_def Let_def
  by (auto split: prod.splits sum.splits option.splits)

lemma savePerson_write:
  assumes "fst (save_institutions E C (institution person)) = Inr ids"
  shows "\<exists>doc. person_writes (snd (savePerson E C person)) = [doc] \<and>
           Write_person (oid doc) doc \<in> set (snd (savePerson E C person)) \<and>
           oid doc = saved_id E (resolve_person E person) \<and>
           map oid (institution doc) = map Some ids \<and>
           context_replaced C (role person) (stored_roles (resolve_person E person))
             (submitted_roles doc)"
  using assms save_institutions_person_writes [of E C "institution person"]
  unfolding savePerson_def Let_def context_replaced_def saved_id_def stored_roles_def
  by (auto split: prod.splits sum.splits option.splits
      simp add: getprop_assign getprop_spread comp_def)

lemma savePerson_institution_writes:
  "doc \<in> set (institution_writes (snd (savePerson E C person))) \<Longrightarrow>
   \<exists>x \<in> set (institution person).
      context_replaced C (role x) (stored_roles (resolve_institution E x)) (submitted_roles doc)"
  using save_institutions_institution_writes [of doc E C "institution person"]
  unfolding savePerson_def Let_def
  by (auto split: prod.splits sum.splits option.splits if_splits)

lemma get_put: "get (put obj k v) k' = (if k' = k then v else get obj k')"
  by (simp add: get_def put_def update_conv')

lemma get_delete: "k' \<noteq> k \<Longrightarrow> get (AList.delete k obj) k' = get obj k'"
  by (simp add: get_def delete_conv')

text \<open>
  \<^verbatim>\<open>addAndGetId\<close> on a person that is stored with a role list \<open>old\<close> for the context
  and submitted with the roles \<open>new\<close>: the list written for the context is the stored
  list followed by the submitted roles, without duplicates and without null roles.
\<close>

lemma addAndGetId_merges:
  assumes "addNestedInstitution E in_field = Inr person"
    and "valid_id E (get person ''_id'')"
    and "find_stored E ''person'' (object_id E (get person ''_id'')) = Some stored"
    and "get (spread_obj stored person) ''roles'' = Obj r"
    and "get r C = Arr old"
    and "\<not> truthy (get (spread_obj stored person) ''institution_role'')"
    and "get (spread_obj stored person) ''person_role'' = Arr new"
  shows "\<exists>i doc r'. addAndGetId E C in_field ''person'' Undefined = Inr (i, doc) \<and>
           get doc ''roles'' = Obj r' \<and>
           get r' C = Arr (filter truthy (from_Set (flatten [Arr old, Arr new])))"
  using assms
  by (simp add: addAndGetId_def add_roles_def Let_def get_put get_delete truthy_def)

lemmas ex_save_defs =
  savePerson_def saveInstitution_def ex_save_env_def ex_submitted_md_person_def
  ex_submitted_md_person_of_I_def ex_stored_md_person_def ex_new_md_institution_def
  ex_stored_md_institution_def spread_def or_empty_def assign_def Let_def

lemma ex_save_institutions:
  "save_institutions ex_save_env ''A'' (institution ex_submitted_md_person) =
     (Inr [''Q''],
      [Write_institution (Some ''Q'')
         \<lparr>oid = Some ''Q'', submitted_roles = Some [(''A'', Some [''RIGHTS_OWNER''])],
          role = Some [''RIGHTS_OWNER'']\<rparr>,
       Insert_user_data ''Q'' ''institution''])"
  by (simp add: ex_save_defs)

lemma ex_savePerson:
  "savePerson ex_save_env ''A'' ex_submitted_md_person =
     (Inl TypeError,
      [Write_institution (Some ''Q'')
         \<lparr>oid = Some ''Q'', submitted_roles = Some [(''A'', Some [''RIGHTS_OWNER''])],
          role = Some [''RIGHTS_OWNER'']\<rparr>,
       Insert_user_data ''Q'' ''institution'',
       Write_person (Some ''P'')
         \<lparr>oid = Some ''P'',
          submitted_roles = Some [(''A'', Some [''EDITOR'']), (''B'', Some [''EDITOR''])],
          role = Some [''EDITOR''],
          institution = [\<lparr>oid = Some ''Q'', submitted_roles = None, role = None\<rparr>]\<rparr>])"
  by (simp add: ex_save_defs)

lemma ex_save_institutions_of_I:
  "save_institutions ex_save_env ''A'' (institution ex_submitted_md_person_of_I) =
     (Inl TypeError,
      [Write_institution (Some ''I'')
         \<lparr>oid = Some ''I'',
          submitted_roles = Some [(''B'', Some [''CREATOR'']), (''A'', Some [''PUBLISHER''])],
          role = Some [''PUBLISHER'']\<rparr>])"
  by (simp add: ex_save_defs)

lemma ex_savePerson_of_I:
  "savePerson ex_save_env ''A'' ex_submitted_md_person_of_I =
     (Inl TypeError,
      [Write_institution (Some ''I'')
         \<lparr>oid = Some ''I'',
          submitted_roles = Some [(''B'', Some [''CREATOR'']), (''A'', Some [''PUBLISHER''])],
          role = Some [''PUBLISHER'']\<rparr>])"
  by (simp add: ex_save_defs)

text \<open>
  Claim C2 as stated: re-saving a context sets the roles of the person for that context
  to exactly the submitted list. The example of the specification, through
  \<^verbatim>\<open>addAndGetId\<close>: P is stored as AUTHOR of A and submitted as EDITOR; the roles written
  for A are AUTHOR and EDITOR. And through \<^verbatim>\<open>savePerson\<close>, P submitted as EDITOR of A
  with the stored institution I: the institution is written, the callback of its update
  throws, and P is not written at all.
\<close>

theorem resave_does_not_replace_roles:
  "addAndGetId ex_add_id_env ''A'' ex_submitted_form ''person'' Undefined =
     Inr (''P'',
          [(''person_name'', Str ''Ada''),
           (''roles'', Obj [(''A'', Arr [Str ''AUTHOR'', Str ''EDITOR'']),
                            (''B'', Arr [Str ''EDITOR''])]),
           (''person_role'', Arr [])]) \<and>
   savePerson ex_save_env ''A'' ex_submitted_md_person_of_I =
     (Inl TypeError,
      [Write_institution (Some ''I'')
         \<lparr>oid = Some ''I'',
          submitted_roles = Some [(''B'', Some [''CREATOR'']), (''A'', Some [''PUBLISHER''])],
          role = Some [''PUBLISHER'']\<rparr>])"
  by (simp add: ex_savePerson_of_I)
     (simp add: addAndGetId_def add_roles_def ex_add_id_env_def ex_submitted_form_def
      ex_stored_form_def spread_obj_def put_def get_def truthy_def from_Set_def
      same_value_def Let_def)

text \<open>
  Claim C2, as amended. \<^verbatim>\<open>saveInstitution\<close> of \<^verbatim>\<open>saveMetaDataEntity\<close> writes the
  institution, once and as its first step, and \<^verbatim>\<open>savePerson\<close> writes the person, once,
  when the saves of the institutions of the person have returned (it writes no person when
  one of them throws): in the record written, the roles of the context being saved are
  exactly the submitted role, whatever was stored for that context, and every entry that
  the stored record has for another context is as it was stored. The saves of the
  institutions return exactly when the update of each answers with an upserted id; the
  institutions that \<^verbatim>\<open>savePerson\<close> writes on the way are written in the same manner.
\<close>

theorem roles_replaced_for_context:
  "(\<exists>doc rest. snd (saveInstitution E C inst) = Write_institution (oid doc) doc # rest \<and>
      (rest = [] \<or> (\<exists>i. rest = [Insert_user_data i ''institution''])) \<and>
      oid doc = saved_id E (resolve_institution E inst) \<and>
      context_replaced C (role inst) (stored_roles (resolve_institution E inst))
        (submitted_roles doc)) \<and>
   (case fst (save_institutions E C (institution person)) of
      Inl err \<Rightarrow>
        fst (savePerson E C person) = Inl err \<and>
        person_writes (snd (savePerson E C person)) = []
    | Inr ids \<Rightarrow>
        (\<exists>doc. person_writes (snd (savePerson E C person)) = [doc] \<and>
           Write_person (oid doc) doc \<in> set (snd (savePerson E C person)) \<and>
           oid doc = saved_id E (resolve_person E person) \<and>
           map oid (institution doc) = map Some ids \<and>
           context_replaced C (role person) (stored_roles (resolve_person E person))
             (submitted_roles doc))) \<and>
   ((\<exists>ids. fst (save_institutions E C (institution person)) = Inr ids) =
      (\<forall>x \<in> set (institution person).
         upserted E ''institution'' (saved_id E (resolve_institution E x)) \<noteq> None)) \<and>
   (\<forall>doc \<in> set (institution_writes (snd (savePerson E C person))).
      \<exists>x \<in> set (institution person).
        context_replaced C (role x) (stored_roles (resolve_institution E x))
          (submitted_roles doc))"
proof (intro conjI)
  show "\<exists>doc rest. snd (saveInstitution E C inst) = Write_institution (oid doc) doc # rest \<and>
      (rest = [] \<or> (\<exists>i. rest = [Insert_user_data i ''institution''])) \<and>
      oid doc = saved_id E (resolve_institution E inst) \<and>
      context_replaced C (role inst) (stored_roles (resolve_institution E inst))
        (submitted_roles doc)"
    by (rule saveInstitution_write)
next
  show "case fst (save_institutions E C (institution person)) of
      Inl err \<Rightarrow>
        fst (savePerson E C person) = Inl err \<and>
        person_writes (snd (savePerson E C person)) = []
    | Inr ids \<Rightarrow>
        (\<exists>doc. person_writes (snd (savePerson E C person)) = [doc] \<and>
           Write_person (oid doc) doc \<in> set (snd (savePerson E C person)) \<and>
           oid doc = saved_id E (resolve_person E person) \<and>
           map oid (institution doc) = map Some ids \<and>
           context_replaced C (role person) (stored_roles (resolve_person E person))
             (submitted_roles doc))"
    by (cases "fst (save_institutions E C (institution person))")
       (simp_all add: savePerson_throws savePerson_write)
next
  show "(\<exists>ids. fst (save_institutions E C (institution person)) = Inr ids) =
      (\<forall>x \<in> set (institution person).
         upserted E ''institution'' (saved_id E (resolve_institution E x)) \<noteq> None)"
    by (rule save_institutions_returns)
next
  show "\<forall>doc \<in> set (institution_writes (snd (savePerson E C person))).
      \<exists>x \<in> set (institution person).
        context_replaced C (role x) (stored_roles (resolve_institution E x))
          (submitted_roles doc)"
    by (blast dest: savePerson_institution_writes)
qed

text \<open>
  The example of the specification through \<^verbatim>\<open>savePerson\<close>: P, stored as AUTHOR of A
  and EDITOR of B, is submitted as EDITOR of A with an institution that is new. The
  institution is written, then the person: the roles written for A are EDITOR alone, and
  the entry for B is kept. (The person was there before, so the callback of its update
  throws after the write.) Submitted with the stored institution I instead, the
  institution is written, the callback of its update throws, and no person is written.
\<close>

theorem roles_replaced_for_context_witness:
  "fst (save_institutions ex_save_env ''A'' (institution ex_submitted_md_person)) = Inr [''Q''] \<and>
   resolve_person ex_save_env ex_submitted_md_person = Some ex_stored_md_person \<and>
   stored_roles (resolve_person ex_save_env ex_submitted_md_person) =
     Some [(''A'', Some [''AUTHOR'']), (''B'', Some [''EDITOR''])] \<and>
   person_writes (snd (savePerson ex_save_env ''A'' ex_submitted_md_person)) =
     [\<lparr>oid = Some ''P'',
       submitted_roles = Some [(''A'', Some [''EDITOR'']), (''B'', Some [''EDITOR''])],
       role = Some [''EDITOR''],
       institution = [\<lparr>oid = Some ''Q'', submitted_roles = None, role = None\<rparr>]\<rparr>] \<and>
   context_replaced ''A'' (Some [''EDITOR''])
     (Some [(''A'', Some [''AUTHOR'']), (''B'', Some [''EDITOR''])])
     (Some [(''A'', Some [''EDITOR'']), (''B'', Some [''EDITOR''])]) \<and>
   institution_writes (snd (savePerson ex_save_env ''A'' ex_submitted_md_person)) =
     [\<lparr>oid = Some ''Q'', submitted_roles = Some [(''A'', Some [''RIGHTS_OWNER''])],
       role = Some [''RIGHTS_OWNER'']\<rparr>] \<and>
   context_replaced ''A'' (Some [''RIGHTS_OWNER'']) None
     (Some [(''A'', Some [''RIGHTS_OWNER''])]) \<and>
   fst (save_institutions ex_save_env ''A'' (institution ex_submitted_md_person_of_I)) =
     Inl TypeError \<and>
   fst (savePerson ex_save_env ''A'' ex_submitted_md_person_of_I) = Inl TypeError \<and>
   person_writes (snd (savePerson ex_save_env ''A'' ex_submitted_md_person_of_I)) = []"
proof -
  note t = roles_replaced_for_context [where E = ex_save_env and C = "''A''"
      and person = ex_submitted_md_person and inst = ex_new_md_institution]
  note t' = roles_replaced_for_context [where E = ex_save_env and C = "''A''"
      and person = ex_submitted_md_person_of_I and inst = ex_new_md_institution]
  have r: "resolve_person ex_save_env ex_submitted_md_person = Some ex_stored_md_person"
    by (simp add: ex_save_env_def ex_submitted_md_person_def)
  have s: "stored_roles (resolve_person ex_save_env ex_submitted_md_person) =
     Some [(''A'', Some [''AUTHOR'']), (''B'', Some [''EDITOR''])]"
    by (simp add: r stored_roles_def or_empty_def ex_stored_md_person_def)
  have p: "role ex_submitted_md_person = Some [''EDITOR'']"
    by (simp add: ex_submitted_md_person_def)
  have w: "person_writes (snd (savePerson ex_save_env ''A'' ex_submitted_md_person)) =
     [\<lparr>oid = Some ''P'',
       submitted_roles = Some [(''A'', Some [''EDITOR'']), (''B'', Some [''EDITOR''])],
       role = Some [''EDITOR''],
       institution = [\<lparr>oid = Some ''Q'', submitted_roles = None, role = None\<rparr>]\<rparr>]"
    by (simp add: ex_savePerson)
  from t [THEN conjunct2, THEN conjunct1]
  have c1: "context_replaced ''A'' (Some [''EDITOR''])
     (Some [(''A'', Some [''AUTHOR'']), (''B'', Some [''EDITOR''])])
     (Some [(''A'', Some [''EDITOR'']), (''B'', Some [''EDITOR''])])"
    by (auto simp add: ex_save_institutions w s p)
  have i: "institution_writes (snd (savePerson ex_save_env ''A'' ex_submitted_md_person)) =
     [\<lparr>oid = Some ''Q'', submitted_roles = Some [(''A'', Some [''RIGHTS_OWNER''])],
       role = Some [''RIGHTS_OWNER'']\<rparr>]"
    by (simp add: ex_savePerson)
  have x: "institution ex_submitted_md_person = [ex_new_md_institution]"
    "role ex_new_md_institution = Some [''RIGHTS_OWNER'']"
    "stored_roles (resolve_institution ex_save_env ex_new_md_institution) = None"
    by (simp_all add: ex_submitted_md_person_def ex_new_md_institution_def ex_save_env_def
        stored_roles_def)
  from t [THEN conjunct2, THEN conjunct2, THEN conjunct2]
  have c2: "context_replaced ''A'' (Some [''RIGHTS_OWNER'']) None
     (Some [(''A'', Some [''RIGHTS_OWNER''])])"
    by (simp add: i x)
  from t' [THEN conjunct2, THEN conjunct1]
  have c3: "fst (savePerson ex_save_env ''A'' ex_submitted_md_person_of_I) = Inl TypeError \<and>
     person_writes (snd (savePerson ex_save_env ''A'' ex_submitted_md_person_of_I)) = []"
    by (simp add: ex_save_institutions_of_I)
  from r s w c1 i c2 c3 show ?thesis
    by (simp add: ex_save_institutions ex_save_institutions_of_I)
qed
end
